theory Spec2Isabelle
  imports Main "HOL-Library.AList"
begin

section \<open>Python strings\<close>

text \<open>
  A Python \<open>str\<close> is modelled as a \<open>string\<close> whose characters are the code points
  below 256. The functions below are the \<open>str\<close> methods that \<open>crud.py\<close> calls,
  restricted to that range.
\<close>

definition char_lower :: "char \<Rightarrow> char" where
  "char_lower c =
     (let n = (of_char c :: nat)
      in if (65 \<le> n \<and> n \<le> 90) \<or> (192 \<le> n \<and> n \<le> 222 \<and> n \<noteq> 215)
         then char_of (n + 32) else c)"

definition lower :: "string \<Rightarrow> string" where
  "lower s = map char_lower s"

definition is_space :: "char \<Rightarrow> bool" where
  "is_space c =
     (let n = (of_char c :: nat)
      in (9 \<le> n \<and> n \<le> 13) \<or> (28 \<le> n \<and> n \<le> 32) \<or> n = 133 \<or> n = 160)"

definition strip :: "string \<Rightarrow> string" where
  "strip s = rev (dropWhile is_space (rev (dropWhile is_space s)))"

fun startswith :: "string \<Rightarrow> string \<Rightarrow> bool" where
  "startswith s [] = True"
| "startswith [] (p # ps) = False"
| "startswith (c # cs) (p # ps) = (c = p \<and> startswith cs ps)"

definition endswith :: "string \<Rightarrow> string \<Rightarrow> bool" where
  "endswith s p = startswith (rev s) (rev p)"

text \<open>\<open>contains p s\<close> is Python's \<open>p in s\<close>.\<close>

fun contains :: "string \<Rightarrow> string \<Rightarrow> bool" where
  "contains p [] = (p = [])"
| "contains p (c # cs) = (startswith (c # cs) p \<or> contains p cs)"

text \<open>\<open>split_on d s\<close> is \<open>s.split(d)\<close> for a one-character separator.\<close>

fun split_on :: "char \<Rightarrow> string \<Rightarrow> string list" where
  "split_on d [] = [[]]"
| "split_on d (c # cs) =
     (if c = d then [] # split_on d cs
      else (case split_on d cs of
              [] \<Rightarrow> [[c]]
            | x # xs \<Rightarrow> (c # x) # xs))"

fun join :: "string \<Rightarrow> string list \<Rightarrow> string" where
  "join sep [] = []"
| "join sep [x] = x"
| "join sep (x # y # ys) = x @ sep @ join sep (y # ys)"

text \<open>\<open>os.path.join\<close> on POSIX paths.\<close>

definition path_join :: "string \<Rightarrow> string \<Rightarrow> string" where
  "path_join a b =
     (if startswith b ''/'' then b
      else if a = [] \<or> endswith a ''/'' then a @ b
      else a @ ''/'' @ b)"

section \<open>Values, exceptions and the outside world\<close>

text \<open>
  The values that travel between the program and the database driver. A \<open>date\<close> or
  \<open>datetime\<close> object is represented by the text its \<open>isoformat()\<close> returns; any
  other object by the text \<open>str()\<close> returns for it.
\<close>

datatype val =
    VNone
  | VBool bool
  | VInt int
  | VStr string
  | VDate string
  | VDateTime string
  | VOther string

text \<open>
  Exceptions. \<open>FileNotFoundError\<close>, \<open>ProgrammingError\<close> and \<open>OtherException\<close> (any
  other exception) carry the text \<open>str()\<close> gives for them. \<open>CalledProcessError\<close>
  carries its command, its return code and its \<open>stderr\<close> attribute, which is \<open>None\<close>
  when the output was not captured. The texts of a \<open>CalledProcessError\<close> and of the
  exceptions the interpreter raises by itself are formatted outside this repository and
  are a parameter of the world below.
\<close>

datatype exn =
    CalledProcessError "string list" int "string option"
  | FileNotFoundError string
  | IndexError
  | TypeError
  | AttributeError
  | ZeroDivisionError
  | ProgrammingError string
  | OtherException string

text \<open>
  Every call that leaves the process is a \<open>call\<close>; an \<open>event\<close> is a call with the flag
  "returned without raising". \<open>ConnExit ok\<close> is the end of a \<open>with conn:\<close> block of the
  driver's connection object, left normally (\<open>ok\<close>) or by an exception: there psycopg2
  commits the transaction when the block is left normally and rolls it back when it is
  left by an exception, and it does not close the connection.
  Creating a cursor and leaving a cursor's block are taken not to raise and are no
  events; what the source prints is left out, and so is the environment handed to a
  subprocess.
\<close>

datatype call =
    Connect "string list"
  | Execute string "val list"
  | Commit
  | Rollback
  | Close
  | ConnExit bool
  | PathExists string
  | Run "string list"
  | Makedirs string
  | ReadSql string
  | ToExcel string
  | ToJson string
  | WriteReport string
  | GetSize string

type_synonym event = "call \<times> bool"

record cursor =
  description :: "string list option"
  rows :: "val list list"
  rowcount :: int

record proc =
  returncode :: int
  stdout :: string
  stderr :: string

text \<open>
  The world answers each call from the history of the events before it, so it is
  deterministic and otherwise arbitrary: \<open>fails\<close> says whether a call raises,
  the other fields give what a call that does not raise returns.
\<close>

record world =
  fails :: "event list \<Rightarrow> call \<Rightarrow> exn option"
  cursor_of :: "event list \<Rightarrow> string \<Rightarrow> val list \<Rightarrow> cursor"
  run_result :: "event list \<Rightarrow> string list \<Rightarrow> proc"
  exists_path :: "event list \<Rightarrow> string \<Rightarrow> bool"
  frame_len :: "event list \<Rightarrow> string \<Rightarrow> nat"
  getenv :: "string \<Rightarrow> string option"
  clock :: "event list \<Rightarrow> int"
  now_iso :: "event list \<Rightarrow> string"
  now_stamp :: "event list \<Rightarrow> string"
  file_size :: "event list \<Rightarrow> string \<Rightarrow> int"
  exception_text :: "exn \<Rightarrow> string"

text \<open>\<open>str(e)\<close>\<close>

fun str_exn :: "world \<Rightarrow> exn \<Rightarrow> string" where
  "str_exn w (FileNotFoundError s) = s"
| "str_exn w (ProgrammingError s) = s"
| "str_exn w (OtherException s) = s"
| "str_exn w e = exception_text w e"

text \<open>
  An action takes the history so far and returns its result, an exception (\<open>Inl\<close>) or
  a value (\<open>Inr\<close>), with the events it added.
\<close>

type_synonym 'a act = "event list \<Rightarrow> (exn + 'a) \<times> event list"

definition pure :: "'a \<Rightarrow> 'a act" where
  "pure x h = (Inr x, [])"

definition throw :: "exn \<Rightarrow> 'a act" where
  "throw e h = (Inl e, [])"

definition andthen :: "'a act \<Rightarrow> ('a \<Rightarrow> 'b act) \<Rightarrow> 'b act" where
  "andthen m f h =
     (case m h of
        (Inl e, evs) \<Rightarrow> (Inl e, evs)
      | (Inr x, evs) \<Rightarrow> (case f x (h @ evs) of (r, evs') \<Rightarrow> (r, evs @ evs')))"

text \<open>\<open>try: m except Exception as e: hdl e\<close>\<close>

definition handle :: "'a act \<Rightarrow> (exn \<Rightarrow> 'a act) \<Rightarrow> 'a act" where
  "handle m hdl h =
     (case m h of
        (Inl e, evs) \<Rightarrow> (case hdl e (h @ evs) of (r, evs') \<Rightarrow> (r, evs @ evs'))
      | (Inr x, evs) \<Rightarrow> (Inr x, evs))"

definition do_call :: "world \<Rightarrow> call \<Rightarrow> unit act" where
  "do_call w c h =
     (case fails w h c of
        Some e \<Rightarrow> (Inl e, [(c, False)])
      | None \<Rightarrow> (Inr (), [(c, True)]))"

definition env_or :: "world \<Rightarrow> string \<Rightarrow> string \<Rightarrow> string" where
  "env_or w name dflt = (case getenv w name of Some v \<Rightarrow> v | None \<Rightarrow> dflt)"

section \<open>database.py\<close>

definition connect_args :: "world \<Rightarrow> string list" where
  "connect_args w =
     [env_or w ''DB_HOST'' ''localhost'',
      env_or w ''DB_NAME'' ''library_management'',
      env_or w ''DB_USER'' ''admin'',
      env_or w ''DB_PASSWORD'' ''123'',
      env_or w ''DB_PORT'' ''5432'']"

text \<open>\<open>Database.get_connection\<close>: connect, and re-raise what connecting raises.\<close>

definition get_connection :: "world \<Rightarrow> unit act" where
  "get_connection w = do_call w (Connect (connect_args w))"

text \<open>
  \<open>with Database.get_connection() as conn: body\<close>. The connection object's own block
  exit runs after the body, on both ways out; what it raises replaces the body's result.
\<close>

definition with_conn :: "world \<Rightarrow> 'a act \<Rightarrow> 'a act" where
  "with_conn w body =
     andthen (get_connection w) (\<lambda>_. \<lambda>h.
       (case body h of
          (Inr x, evs) \<Rightarrow>
            (case do_call w (ConnExit True) (h @ evs) of
               (Inl e', evs') \<Rightarrow> (Inl e', evs @ evs')
             | (Inr _, evs') \<Rightarrow> (Inr x, evs @ evs'))
        | (Inl e, evs) \<Rightarrow>
            (case do_call w (ConnExit False) (h @ evs) of
               (Inl e', evs') \<Rightarrow> (Inl e', evs @ evs')
             | (Inr _, evs') \<Rightarrow> (Inl e, evs @ evs'))))"

text \<open>
  \<open>with Database.get_connection_context() as conn: body\<close>. A failed connect leaves
  \<open>conn = None\<close> and is re-raised with nothing to close. After a body that raised, the
  connection is rolled back and the exception re-raised (a failing rollback raises
  instead); \<open>finally\<close> closes the connection on every way out.
\<close>

definition with_connection_context :: "world \<Rightarrow> 'a act \<Rightarrow> 'a act" where
  "with_connection_context w body =
     andthen (get_connection w) (\<lambda>_. \<lambda>h.
       (case body h of
          (Inr x, evs) \<Rightarrow>
            (case do_call w Close (h @ evs) of
               (Inl e', evs') \<Rightarrow> (Inl e', evs @ evs')
             | (Inr _, evs') \<Rightarrow> (Inr x, evs @ evs'))
        | (Inl e, evs) \<Rightarrow>
            (case do_call w Rollback (h @ evs) of
               (r, evs') \<Rightarrow>
                 (case do_call w Close (h @ evs @ evs') of
                    (Inl e'', evs'') \<Rightarrow> (Inl e'', evs @ evs' @ evs'')
                  | (Inr _, evs'') \<Rightarrow>
                      (case r of
                         Inl e' \<Rightarrow> (Inl e', evs @ evs' @ evs'')
                       | Inr _ \<Rightarrow> (Inl e, evs @ evs' @ evs''))))))"

section \<open>Cursors\<close>

definition execute :: "world \<Rightarrow> string \<Rightarrow> val list \<Rightarrow> cursor act" where
  "execute w q ps h =
     (case fails w h (Execute q ps) of
        Some e \<Rightarrow> (Inl e, [(Execute q ps, False)])
      | None \<Rightarrow> (Inr (cursor_of w h q ps), [(Execute q ps, True)]))"

text \<open>\<open>cur.fetchone()\<close> and \<open>cur.fetchall()\<close> raise when the statement gave no result set.\<close>

definition fetchone :: "cursor \<Rightarrow> (val list option \<times> cursor) act" where
  "fetchone cur =
     (case description cur of
        None \<Rightarrow> throw (ProgrammingError ''no results to fetch'')
      | Some _ \<Rightarrow>
          (case rows cur of
             [] \<Rightarrow> pure (None, cur)
           | r # rs \<Rightarrow> pure (Some r, cur\<lparr>rows := rs\<rparr>)))"

definition fetchall :: "cursor \<Rightarrow> (val list list \<times> cursor) act" where
  "fetchall cur =
     (case description cur of
        None \<Rightarrow> throw (ProgrammingError ''no results to fetch'')
      | Some _ \<Rightarrow> pure (rows cur, cur\<lparr>rows := []\<rparr>))"

section \<open>crud.py: get_primary_key\<close>

text \<open>SQL texts are written with their white space normalised; \<open>sq s\<close> is \<open>s\<close> in
  single quotes and \<open>dq s\<close> is \<open>s\<close> in double quotes.\<close>

definition sq :: "string \<Rightarrow> string" where
  "sq s = CHR 0x27 # s @ [CHR 0x27]"

definition dq :: "string \<Rightarrow> string" where
  "dq s = CHR 0x22 # s @ [CHR 0x22]"

definition pk_query :: string where
  "pk_query =
     ''SELECT column_name FROM information_schema.table_constraints tc '' @
     ''JOIN information_schema.key_column_usage kcu '' @
     ''ON tc.constraint_name = kcu.constraint_name '' @
     ''WHERE tc.table_name = %s AND tc.constraint_type = '' @ sq ''PRIMARY KEY''"

text \<open>\<open>result[0] if result else 'id'\<close>: an absent row and an empty tuple are both false.\<close>

definition pk_of_row :: "val list option \<Rightarrow> val" where
  "pk_of_row result =
     (case result of
        None \<Rightarrow> VStr ''id''
      | Some [] \<Rightarrow> VStr ''id''
      | Some (x # xs) \<Rightarrow> x)"

definition get_primary_key :: "world \<Rightarrow> string \<Rightarrow> val act" where
  "get_primary_key w table_name =
     handle
       (with_conn w
          (andthen (execute w pk_query [VStr table_name]) (\<lambda>cur.
           andthen (fetchone cur) (\<lambda>(result, cur').
           pure (pk_of_row result)))))
       (\<lambda>e. pure (VStr ''id''))"

section \<open>Helpers shared by the operations\<close>

definition lift :: "exn + 'a \<Rightarrow> 'a act" where
  "lift r h = (r, [])"

text \<open>A comprehension or loop whose body may raise stops at the first exception.\<close>

fun map_exn :: "('a \<Rightarrow> exn + 'b) \<Rightarrow> 'a list \<Rightarrow> exn + 'b list" where
  "map_exn f [] = Inr []"
| "map_exn f (x # xs) =
     (case f x of
        Inl e \<Rightarrow> Inl e
      | Inr y \<Rightarrow> (case map_exn f xs of Inl e \<Rightarrow> Inl e | Inr ys \<Rightarrow> Inr (y # ys)))"

definition item0 :: "val list \<Rightarrow> exn + val" where
  "item0 r = (case r of [] \<Rightarrow> Inl IndexError | x # xs \<Rightarrow> Inr x)"

text \<open>\<open>str_val v\<close> is what an f-string puts for \<open>{v}\<close>.\<close>

definition digit_char :: "nat \<Rightarrow> char" where
  "digit_char d = char_of (48 + d)"

fun str_nat :: "nat \<Rightarrow> string" where
  "str_nat n = (if n < 10 then [digit_char n] else str_nat (n div 10) @ [digit_char (n mod 10)])"

definition str_int :: "int \<Rightarrow> string" where
  "str_int i = (if i < 0 then CHR ''-'' # str_nat (nat (- i)) else str_nat (nat i))"

fun str_val :: "val \<Rightarrow> string" where
  "str_val VNone = ''None''"
| "str_val (VBool b) = (if b then ''True'' else ''False'')"
| "str_val (VInt i) = str_int i"
| "str_val (VStr s) = s"
| "str_val (VDate s) = s"
| "str_val (VDateTime s) = map (\<lambda>c. if c = CHR ''T'' then CHR '' '' else c) s"
| "str_val (VOther s) = s"

text \<open>A dict is the list of its items in insertion order; \<open>dict_of\<close> is \<open>dict(pairs)\<close>,
  where a later pair with a key already present replaces that key's value in place.\<close>

definition dict_of :: "('k \<times> 'v) list \<Rightarrow> ('k \<times> 'v) list" where
  "dict_of ps = foldl (\<lambda>d (k, v). AList.update k v d) [] ps"

definition dict_get :: "(string \<times> val) list \<Rightarrow> string \<Rightarrow> val" where
  "dict_get d k = (case map_of d k of None \<Rightarrow> VNone | Some v \<Rightarrow> v)"

text \<open>
  The fixed texts of the source are Russian sentences; each is a constructor here, with
  the values the source formats into it. \<open>Text s\<close> is any other text, and \<open>NoValue\<close>
  is \<open>None\<close> in the place of a text.
\<close>

datatype msg =
    Text string
  | NoUpdateData
  | RecordUpdated
  | RecordDeleted
  | CannotDeleteDependents
  | NoDeleteConditions
  | QueryDone int
  | BackupMissing string
  | UnknownCleanError
  | SchemaCleanFailed msg
  | RestoreToolMissing string
  | DatabaseRestored
  | NoInsertData
  | NoUpdateConditions
  | NoValue

datatype status = Success msg | Failure msg

section \<open>crud.py: get_tables, get_table_columns, get_record_by_id\<close>

definition tables_query :: string where
  "tables_query =
     ''SELECT table_name FROM information_schema.tables WHERE table_schema = '' @ sq ''public'' @
     '' AND table_type = '' @ sq ''BASE TABLE'' @
     '' AND table_name NOT LIKE '' @ sq ''pg_%'' @
     '' AND table_name NOT LIKE '' @ sq ''sql_%'' @
     '' ORDER BY table_name;''"

definition get_tables :: "world \<Rightarrow> val list act" where
  "get_tables w =
     with_connection_context w
       (andthen (execute w tables_query []) (\<lambda>cur.
        andthen (fetchall cur) (\<lambda>(fetched, cur').
        lift (map_exn item0 fetched))))"

definition columns_query :: string where
  "columns_query =
     ''SELECT column_name, data_type, is_nullable, column_default '' @
     ''FROM information_schema.columns WHERE table_schema = '' @ sq ''public'' @
     '' AND table_name = %s ORDER BY ordinal_position;''"

record column_info =
  col_name :: val
  col_type :: val
  col_nullable :: bool
  col_default :: val

definition column_dict :: "val list \<Rightarrow> exn + column_info" where
  "column_dict col =
     (if length col < 4 then Inl IndexError
      else Inr \<lparr>col_name = col ! 0, col_type = col ! 1,
                col_nullable = (col ! 2 = VStr ''YES''), col_default = col ! 3\<rparr>)"

definition get_table_columns :: "world \<Rightarrow> string \<Rightarrow> column_info list act" where
  "get_table_columns w table_name =
     with_conn w
       (andthen (execute w columns_query [VStr table_name]) (\<lambda>cur.
        andthen (fetchall cur) (\<lambda>(columns, cur').
        lift (map_exn column_dict columns))))"

datatype record_result =
    RecFound "(val \<times> val) list"
  | RecNone
  | RecError string

definition select_by_pk :: "string \<Rightarrow> val \<Rightarrow> string" where
  "select_by_pk table_name pk_column =
     ''SELECT * FROM '' @ table_name @ '' WHERE '' @ str_val pk_column @ '' = %s''"

definition get_record_by_id :: "world \<Rightarrow> string \<Rightarrow> val \<Rightarrow> record_result act" where
  "get_record_by_id w table_name record_id =
     handle
       (with_conn w
          (andthen (execute w pk_query [VStr table_name]) (\<lambda>cur.
           andthen (fetchone cur) (\<lambda>(pk_result, cur').
           andthen (execute w (select_by_pk table_name (pk_of_row pk_result)) [record_id]) (\<lambda>cur2.
           andthen (fetchone cur2) (\<lambda>(record, cur2').
             (case record of
                Some (x # xs) \<Rightarrow>
                  andthen (get_table_columns w table_name) (\<lambda>columns.
                  pure (RecFound (dict_of (zip (map col_name columns) (x # xs)))))
              | _ \<Rightarrow> pure RecNone)))))))
       (\<lambda>e. pure (RecError (str_exn w e)))"

section \<open>crud.py: update_record, delete_record\<close>

text \<open>The loop over \<open>data.items()\<close> that collects \<open>set_parts\<close> and \<open>values\<close>.\<close>

fun build_set :: "val \<Rightarrow> (string \<times> val) list \<Rightarrow> string list \<times> val list" where
  "build_set pk_column [] = ([], [])"
| "build_set pk_column ((key, v) # rest) =
     (case build_set pk_column rest of
        (set_parts, vals) \<Rightarrow>
          if VStr key \<noteq> pk_column \<and> v \<noteq> VStr [] \<and> v \<noteq> VNone
          then ((key @ '' = %s'') # set_parts, v # vals)
          else (set_parts, vals))"

definition update_query :: "string \<Rightarrow> string list \<Rightarrow> val \<Rightarrow> string" where
  "update_query table_name set_parts pk_column =
     ''UPDATE '' @ table_name @ '' SET '' @ join '', '' set_parts @
     '' WHERE '' @ str_val pk_column @ '' = %s''"

definition update_record :: "world \<Rightarrow> string \<Rightarrow> val \<Rightarrow> (string \<times> val) list \<Rightarrow> status act" where
  "update_record w table_name record_id data =
     handle
       (with_connection_context w
          (andthen (execute w pk_query [VStr table_name]) (\<lambda>cur.
           andthen (fetchone cur) (\<lambda>(pk_result, cur').
             (case build_set (pk_of_row pk_result) data of
                (set_parts, vals) \<Rightarrow>
                  if set_parts = [] then pure (Failure NoUpdateData)
                  else
                    andthen (execute w (update_query table_name set_parts (pk_of_row pk_result))
                               (vals @ [record_id])) (\<lambda>cur2.
                    andthen (do_call w Commit) (\<lambda>_.
                    pure (Success RecordUpdated))))))))
       (\<lambda>e. pure (Failure (Text (str_exn w e))))"

definition delete_query :: "string \<Rightarrow> val \<Rightarrow> string" where
  "delete_query table_name pk_column =
     ''DELETE FROM '' @ table_name @ '' WHERE '' @ str_val pk_column @ '' = %s''"

definition delete_record :: "world \<Rightarrow> string \<Rightarrow> val \<Rightarrow> status act" where
  "delete_record w table_name record_id =
     handle
       (with_connection_context w
          (andthen (execute w pk_query [VStr table_name]) (\<lambda>cur.
           andthen (fetchone cur) (\<lambda>(pk_result, cur').
           andthen (execute w (delete_query table_name (pk_of_row pk_result)) [record_id]) (\<lambda>cur2.
           andthen (do_call w Commit) (\<lambda>_.
           pure (Success RecordDeleted)))))))
       (\<lambda>e. pure (Failure (Text (str_exn w e))))"

section \<open>crud.py: get_table_data\<close>

definition count_query :: "string \<Rightarrow> string" where
  "count_query table_name = ''SELECT COUNT(*) FROM '' @ table_name @ '';''"

definition column_names_query :: string where
  "column_names_query =
     ''SELECT column_name FROM information_schema.columns WHERE table_schema = '' @ sq ''public'' @
     '' AND table_name = %s ORDER BY ordinal_position;''"

text \<open>The loop \<open>for col in columns: if col.endswith('_id'): sort_column = col; break\<close>;
  only a \<open>str\<close> has \<open>endswith\<close>.\<close>

fun sort_loop :: "val \<Rightarrow> val list \<Rightarrow> exn + val" where
  "sort_loop sort_column [] = Inr sort_column"
| "sort_loop sort_column (col # cols) =
     (case col of
        VStr s \<Rightarrow> if endswith s ''_id'' then Inr col else sort_loop sort_column cols
      | _ \<Rightarrow> Inl AttributeError)"

definition infer_sort_column :: "val list \<Rightarrow> exn + val" where
  "infer_sort_column columns =
     (case sort_loop (VStr ''ctid'') columns of
        Inl e \<Rightarrow> Inl e
      | Inr sort_column \<Rightarrow>
          Inr (if sort_column = VStr ''ctid'' \<and> columns \<noteq> [] then hd columns else sort_column))"

definition page_query :: "string \<Rightarrow> val \<Rightarrow> string" where
  "page_query table_name sort_column =
     ''SELECT * FROM '' @ table_name @ '' ORDER BY '' @ str_val sort_column @
     '' LIMIT %s OFFSET %s;''"

text \<open>\<open>datetime\<close> and \<open>date\<close> values are replaced by their \<open>isoformat()\<close> text.\<close>

fun iso_val :: "val \<Rightarrow> val" where
  "iso_val (VDateTime s) = VStr s"
| "iso_val (VDate s) = VStr s"
| "iso_val v = v"

text \<open>\<open>for i, value in enumerate(row): row_dict[names[i]] = ...\<close>, with the names and the
  row walked together; a row longer than the names raises \<open>IndexError\<close>.\<close>

fun row_loop :: "'k list \<Rightarrow> val list \<Rightarrow> ('k \<times> val) list \<Rightarrow> exn + ('k \<times> val) list" where
  "row_loop names [] row_dict = Inr row_dict"
| "row_loop [] (v # vs) row_dict = Inl IndexError"
| "row_loop (k # ks) (v # vs) row_dict = row_loop ks vs (AList.update k (iso_val v) row_dict)"

definition row_to_dict :: "'k list \<Rightarrow> val list \<Rightarrow> exn + ('k \<times> val) list" where
  "row_to_dict names row = row_loop names row []"

definition int_of_val :: "val \<Rightarrow> exn + int" where
  "int_of_val v =
     (case v of
        VInt n \<Rightarrow> Inr n
      | VBool b \<Rightarrow> Inr (if b then 1 else 0)
      | _ \<Rightarrow> Inl TypeError)"

definition total_pages_of :: "val \<Rightarrow> int \<Rightarrow> exn + int" where
  "total_pages_of total_count page_size =
     (case int_of_val total_count of
        Inl e \<Rightarrow> Inl e
      | Inr n \<Rightarrow> if page_size = 0 then Inl ZeroDivisionError
                 else Inr ((n + page_size - 1) div page_size))"

definition first_field :: "val list option \<Rightarrow> exn + val" where
  "first_field r = (case r of None \<Rightarrow> Inl TypeError | Some t \<Rightarrow> item0 t)"

record table_page =
  total_count :: val
  page :: int
  page_size :: int
  total_pages :: int
  data :: "(val \<times> val) list list"
  columns :: "val list"

definition get_table_data :: "world \<Rightarrow> string \<Rightarrow> int \<Rightarrow> int \<Rightarrow> table_page act" where
  "get_table_data w table_name pg pg_size =
     with_connection_context w
       (andthen (execute w (count_query table_name) []) (\<lambda>cur.
        andthen (fetchone cur) (\<lambda>(first, cur').
        andthen (lift (first_field first)) (\<lambda>total.
        andthen (execute w column_names_query [VStr table_name]) (\<lambda>cur2.
        andthen (fetchall cur2) (\<lambda>(fetched, cur2').
        andthen (lift (map_exn item0 fetched)) (\<lambda>cols.
        andthen (lift (infer_sort_column cols)) (\<lambda>sort_column.
        andthen (execute w (page_query table_name sort_column)
                   [VInt pg_size, VInt ((pg - 1) * pg_size)]) (\<lambda>cur3.
        andthen (fetchall cur3) (\<lambda>(fetched_rows, cur3').
        andthen (lift (map_exn (row_to_dict cols) fetched_rows)) (\<lambda>dicts.
        andthen (lift (total_pages_of total pg_size)) (\<lambda>pages.
        pure \<lparr>total_count = total, page = pg, page_size = pg_size, total_pages = pages,
              data = dicts, columns = cols\<rparr>))))))))))))"

section \<open>crud.py: execute_sql\<close>

text \<open>Times are readings of the clock in microseconds, and the execution time is the
  difference of two readings.\<close>

datatype sql_result =
    SqlRows "(string \<times> val) list list" "string list" int int
  | SqlDone msg int int
  | SqlFailed string int

text \<open>The \<open>try\<close> statement inside the connection block; \<open>h\<close> is the history when
  \<open>start_time\<close> is read.\<close>

definition execute_sql_try :: "world \<Rightarrow> string \<Rightarrow> val list \<Rightarrow> sql_result act" where
  "execute_sql_try w query params h =
     handle
       (andthen (execute w query params) (\<lambda>cur.
          (case description cur of
             Some (d # ds) \<Rightarrow>
               andthen (fetchall cur) (\<lambda>(fetched, cur').
               andthen (lift (map_exn (row_to_dict (d # ds)) fetched)) (\<lambda>dicts.
               (\<lambda>h'. (Inr (SqlRows dicts (d # ds) (rowcount cur) (clock w h' - clock w h)), []))))
           | _ \<Rightarrow>
               andthen (do_call w Commit) (\<lambda>_.
               (\<lambda>h'. (Inr (SqlDone (QueryDone (rowcount cur)) (rowcount cur)
                              (clock w h' - clock w h)), []))))))
       (\<lambda>e.
          andthen (do_call w Rollback) (\<lambda>_.
          (\<lambda>h'. (Inr (SqlFailed (str_exn w e) (clock w h' - clock w h)), []))))
       h"

definition execute_sql :: "world \<Rightarrow> string \<Rightarrow> val list \<Rightarrow> sql_result act" where
  "execute_sql w query params = with_conn w (execute_sql_try w query params)"

section \<open>crud.py: delete_data\<close>

definition authors_dep_query :: string where
  "authors_dep_query =
     ''SELECT COUNT(*) FROM book_authors ba JOIN books b ON ba.book_id = b.book_id '' @
     ''WHERE ba.author_id = %s;''"

definition genres_dep_query :: string where
  "genres_dep_query =
     ''SELECT COUNT(*) FROM book_genres bg JOIN books b ON bg.book_id = b.book_id '' @
     ''WHERE bg.genre_id = %s;''"

definition publishers_dep_query :: string where
  "publishers_dep_query = ''SELECT COUNT(*) FROM books WHERE publisher_id = %s;''"

definition readers_dep_query :: string where
  "readers_dep_query =
     ''SELECT COUNT(*) FROM book_loans WHERE reader_id = %s AND is_returned = false;''"

definition count_into :: "world \<Rightarrow> string \<Rightarrow> val \<Rightarrow> string \<Rightarrow> (string \<times> val) list act" where
  "count_into w q param dep_name =
     andthen (execute w q [param]) (\<lambda>cur.
     andthen (fetchone cur) (\<lambda>(r, cur').
     andthen (lift (first_field r)) (\<lambda>n.
     pure [(dep_name, n)])))"

definition count_dependencies ::
    "world \<Rightarrow> string \<Rightarrow> (string \<times> val) list \<Rightarrow> (string \<times> val) list act" where
  "count_dependencies w table_name condition =
     (if table_name = ''authors''
        then count_into w authors_dep_query (dict_get condition ''author_id'') ''books''
      else if table_name = ''genres''
        then count_into w genres_dep_query (dict_get condition ''genre_id'') ''books''
      else if table_name = ''publishers''
        then count_into w publishers_dep_query (dict_get condition ''publisher_id'') ''books''
      else if table_name = ''readers''
        then count_into w readers_dep_query (dict_get condition ''reader_id'') ''active_loans''
      else pure [])"

text \<open>\<open>count > 0\<close>, defined on numbers only.\<close>

definition positive :: "val \<Rightarrow> exn + bool" where
  "positive v = (case int_of_val v of Inl e \<Rightarrow> Inl e | Inr n \<Rightarrow> Inr (0 < n))"

fun any_positive :: "val list \<Rightarrow> exn + bool" where
  "any_positive [] = Inr False"
| "any_positive (c # cs) =
     (case positive c of
        Inl e \<Rightarrow> Inl e
      | Inr b \<Rightarrow> if b then Inr True else any_positive cs)"

definition delete_where_query :: "string \<Rightarrow> string list \<Rightarrow> string" where
  "delete_where_query table_name where_clause =
     ''DELETE FROM '' @ table_name @ '' WHERE '' @ join '' AND '' where_clause @ '' RETURNING *;''"

datatype delete_result =
    DelBlocked msg "(string \<times> val) list"
  | DelFailed msg
  | DelOk int "(string \<times> val) list list"

definition check_dependencies ::
    "world \<Rightarrow> string \<Rightarrow> (string \<times> val) list \<Rightarrow> (string \<times> val) list option act" where
  "check_dependencies w table_name condition =
     (if table_name \<in> set [''authors'', ''genres'', ''publishers'', ''readers'']
      then
        andthen (count_dependencies w table_name condition) (\<lambda>dependencies.
        andthen (lift (any_positive (map snd dependencies))) (\<lambda>has_dependencies.
        pure (if has_dependencies then Some dependencies else None)))
      else pure None)"

definition description_names :: "cursor \<Rightarrow> exn + string list" where
  "description_names cur = (case description cur of None \<Rightarrow> Inl TypeError | Some ns \<Rightarrow> Inr ns)"

definition delete_data :: "world \<Rightarrow> string \<Rightarrow> (string \<times> val) list \<Rightarrow> delete_result act" where
  "delete_data w table_name condition =
     with_conn w
       (handle
          (andthen (check_dependencies w table_name condition) (\<lambda>blocked.
             (case blocked of
                Some dependencies \<Rightarrow> pure (DelBlocked CannotDeleteDependents dependencies)
              | None \<Rightarrow>
                  if map (\<lambda>(key, v). key @ '' = %s'') condition = []
                  then pure (DelFailed NoDeleteConditions)
                  else
                    andthen (execute w
                               (delete_where_query table_name
                                  (map (\<lambda>(key, v). key @ '' = %s'') condition))
                               (map snd condition)) (\<lambda>cur.
                    andthen (fetchall cur) (\<lambda>(result, cur').
                    andthen (do_call w Commit) (\<lambda>_.
                    andthen (lift (description_names cur)) (\<lambda>column_names.
                    pure (DelOk (rowcount cur)
                            (map (\<lambda>row. dict_of (zip column_names row)) result)))))))))
          (\<lambda>e.
             andthen (do_call w Rollback) (\<lambda>_.
             pure (DelFailed (Text (str_exn w e))))))"

section \<open>crud.py: insert_data, update_data\<close>

text \<open>The loop of \<open>insert_data\<close> over \<open>data.items()\<close>: empty and absent values are
  skipped.\<close>

fun build_insert :: "(string \<times> val) list \<Rightarrow> string list \<times> val list" where
  "build_insert [] = ([], [])"
| "build_insert ((key, v) # rest) =
     (case build_insert rest of
        (cols, vals) \<Rightarrow>
          if v = VStr [] \<or> v = VNone then (cols, vals) else (key # cols, v # vals))"

definition insert_query :: "string \<Rightarrow> string list \<Rightarrow> string" where
  "insert_query table_name cols =
     ''INSERT INTO '' @ table_name @ '' ('' @ join '', '' cols @ '') VALUES ('' @
     join '', '' (map (\<lambda>c. ''%s'') cols) @ '') RETURNING *;''"

datatype insert_result =
    Inserted "(string \<times> val) list"
  | InsertFailed msg

text \<open>\<open>zip(column_names, result)\<close> raises when \<open>fetchone\<close> gave \<open>None\<close>.\<close>

definition fetched_row :: "val list option \<Rightarrow> exn + val list" where
  "fetched_row r = (case r of None \<Rightarrow> Inl TypeError | Some t \<Rightarrow> Inr t)"

definition insert_data :: "world \<Rightarrow> string \<Rightarrow> (string \<times> val) list \<Rightarrow> insert_result act" where
  "insert_data w table_name dat =
     with_conn w
       (handle
          (case build_insert dat of
             (cols, vals) \<Rightarrow>
               if cols = [] then pure (InsertFailed NoInsertData)
               else
                 andthen (execute w (insert_query table_name cols) vals) (\<lambda>cur.
                 andthen (fetchone cur) (\<lambda>(result, cur').
                 andthen (do_call w Commit) (\<lambda>_.
                 andthen (lift (description_names cur)) (\<lambda>column_names.
                 andthen (lift (fetched_row result)) (\<lambda>r.
                 pure (Inserted (dict_of (zip column_names r)))))))))
          (\<lambda>e.
             andthen (do_call w Rollback) (\<lambda>_.
             pure (InsertFailed (Text (str_exn w e))))))"

text \<open>The first loop of \<open>update_data\<close>: the SET parts and their values.\<close>

fun build_update :: "(string \<times> val) list \<Rightarrow> string list \<times> val list" where
  "build_update [] = ([], [])"
| "build_update ((key, v) # rest) =
     (case build_update rest of
        (set_parts, vals) \<Rightarrow>
          if v = VStr [] \<or> v = VNone then (set_parts, vals)
          else ((key @ '' = %s'') # set_parts, v # vals))"

definition update_where_query :: "string \<Rightarrow> string list \<Rightarrow> string list \<Rightarrow> string" where
  "update_where_query table_name set_parts where_clause =
     ''UPDATE '' @ table_name @ '' SET '' @ join '', '' set_parts @
     '' WHERE '' @ join '' AND '' where_clause @ '' RETURNING *;''"

datatype update_result =
    Updated int "(string \<times> val) list list"
  | UpdateFailed msg

definition update_data ::
    "world \<Rightarrow> string \<Rightarrow> (string \<times> val) list \<Rightarrow> (string \<times> val) list \<Rightarrow> update_result act" where
  "update_data w table_name dat condition =
     with_conn w
       (handle
          (case build_update dat of
             (set_parts, vals) \<Rightarrow>
               if set_parts = [] then pure (UpdateFailed NoUpdateData)
               else if map (\<lambda>(key, v). key @ '' = %s'') condition = []
               then pure (UpdateFailed NoUpdateConditions)
               else
                 andthen (execute w
                            (update_where_query table_name set_parts
                               (map (\<lambda>(key, v). key @ '' = %s'') condition))
                            (vals @ map snd condition)) (\<lambda>cur.
                 andthen (fetchall cur) (\<lambda>(result, cur').
                 andthen (do_call w Commit) (\<lambda>_.
                 andthen (lift (description_names cur)) (\<lambda>column_names.
                 pure (Updated (rowcount cur)
                         (map (\<lambda>row. dict_of (zip column_names row)) result)))))))
          (\<lambda>e.
             andthen (do_call w Rollback) (\<lambda>_.
             pure (UpdateFailed (Text (str_exn w e))))))"

section \<open>crud.py: create_backup\<close>

text \<open>\<open>subprocess.run(cmd, env=env, capture_output=True, text=True, check=True)\<close>: a
  nonzero return code raises \<open>CalledProcessError\<close> with the captured standard error.\<close>

definition run_capture_checked :: "world \<Rightarrow> string list \<Rightarrow> proc act" where
  "run_capture_checked w cmd h =
     (case fails w h (Run cmd) of
        Some e \<Rightarrow> (Inl e, [(Run cmd, False)])
      | None \<Rightarrow>
          if returncode (run_result w h cmd) \<noteq> 0
          then (Inl (CalledProcessError cmd (returncode (run_result w h cmd))
                       (Some (stderr (run_result w h cmd)))),
                [(Run cmd, False)])
          else (Inr (run_result w h cmd), [(Run cmd, True)]))"

definition get_size :: "world \<Rightarrow> string \<Rightarrow> int act" where
  "get_size w p h =
     (case fails w h (GetSize p) of
        Some e \<Rightarrow> (Inl e, [(GetSize p, False)])
      | None \<Rightarrow> (Inr (file_size w h p), [(GetSize p, True)]))"

text \<open>The file name: a generated one when none (or an empty one) is given, else the
  given one with the extension \<open>.backup\<close>.\<close>

definition backup_file_name :: "world \<Rightarrow> string option \<Rightarrow> event list \<Rightarrow> string" where
  "backup_file_name w backup_name h =
     (case backup_name of
        None \<Rightarrow> ''library_backup_'' @ now_stamp w h @ ''.backup''
      | Some n \<Rightarrow>
          if n = [] then ''library_backup_'' @ now_stamp w h @ ''.backup''
          else if endswith n ''.backup'' then n else n @ ''.backup'')"

definition backup_cmd :: "world \<Rightarrow> string \<Rightarrow> string list \<Rightarrow> string list" where
  "backup_cmd w backup_path tbls =
     [''pg_dump'',
      ''-h'', env_or w ''DB_HOST'' ''localhost'',
      ''-p'', env_or w ''DB_PORT'' ''5432'',
      ''-U'', env_or w ''DB_USER'' ''admin'',
      ''-d'', env_or w ''DB_NAME'' ''library_management'',
      ''-F'', ''c'',
      ''-f'', backup_path] @ concat (map (\<lambda>table. [''-t'', table]) tbls)"

text \<open>A result dict of \<open>create_backup\<close>: path, file size, the tables (\<open>None\<close> for the
  text \<open>all\<close>) and the timestamp, or the error with the command where the source gives
  it. An empty list of tables stands for no tables given.\<close>

datatype backup_result =
    BackupDone string int "string list option" string
  | BackupFailed msg "string option"

definition backup_handler :: "world \<Rightarrow> string list \<Rightarrow> exn \<Rightarrow> backup_result" where
  "backup_handler w cmd e =
     (case e of
        CalledProcessError c rc err \<Rightarrow>
          BackupFailed (case err of Some s \<Rightarrow> Text s | None \<Rightarrow> NoValue) (Some (join '' '' cmd))
      | _ \<Rightarrow> BackupFailed (Text (str_exn w e)) None)"

definition create_backup :: "world \<Rightarrow> string option \<Rightarrow> string list \<Rightarrow> backup_result act" where
  "create_backup w backup_name tbls =
     andthen (do_call w (Makedirs (env_or w ''BACKUP_DIR'' ''backups''))) (\<lambda>_. \<lambda>h.
       handle
         (andthen (run_capture_checked w
                     (backup_cmd w
                        (path_join (env_or w ''BACKUP_DIR'' ''backups'')
                           (backup_file_name w backup_name h)) tbls)) (\<lambda>result.
          andthen (get_size w
                     (path_join (env_or w ''BACKUP_DIR'' ''backups'')
                        (backup_file_name w backup_name h))) (\<lambda>size. \<lambda>h'.
          (Inr (BackupDone
                  (path_join (env_or w ''BACKUP_DIR'' ''backups'')
                     (backup_file_name w backup_name h))
                  size (if tbls = [] then None else Some tbls) (now_iso w h')), []))))
         (\<lambda>e. pure (backup_handler w
                       (backup_cmd w
                          (path_join (env_or w ''BACKUP_DIR'' ''backups'')
                             (backup_file_name w backup_name h)) tbls) e))
         h)"

section \<open>crud.py: restore_backup\<close>

definition path_exists :: "world \<Rightarrow> string \<Rightarrow> bool act" where
  "path_exists w p h = (Inr (exists_path w h p), [(PathExists p, True)])"

text \<open>\<open>subprocess.run(cmd, env=env, capture_output=True, text=True)\<close>: the return code is
  not checked, and both output streams come back as text.\<close>

definition run :: "world \<Rightarrow> string list \<Rightarrow> proc act" where
  "run w cmd h =
     (case fails w h (Run cmd) of
        Some e \<Rightarrow> (Inl e, [(Run cmd, False)])
      | None \<Rightarrow> (Inr (run_result w h cmd), [(Run cmd, True)]))"

definition psql_cmd :: "world \<Rightarrow> string list" where
  "psql_cmd w =
     [''psql'',
      ''-h'', env_or w ''DB_HOST'' ''localhost'',
      ''-p'', env_or w ''DB_PORT'' ''5432'',
      ''-U'', env_or w ''DB_USER'' ''admin'',
      ''-d'', env_or w ''DB_NAME'' ''library_management'',
      ''-v'', ''ON_ERROR_STOP=1'',
      ''-c'',
      ''DROP SCHEMA IF EXISTS public CASCADE; CREATE SCHEMA public; '' @
      ''GRANT ALL ON SCHEMA public TO '' @ dq (env_or w ''DB_USER'' ''admin'') @
      ''; GRANT ALL ON SCHEMA public TO public;'']"

definition restore_cmd :: "world \<Rightarrow> string \<Rightarrow> string list" where
  "restore_cmd w backup_path =
     [''pg_restore'',
      ''-h'', env_or w ''DB_HOST'' ''localhost'',
      ''-p'', env_or w ''DB_PORT'' ''5432'',
      ''-U'', env_or w ''DB_USER'' ''admin'',
      ''-d'', env_or w ''DB_NAME'' ''library_management'',
      ''-v'',
      ''--no-owner'',
      ''--no-privileges'',
      backup_path]"

text \<open>\<open>stderr.strip() or stdout.strip() or\<close> the fixed text for an unknown error.\<close>

definition clean_error_text :: "proc \<Rightarrow> msg" where
  "clean_error_text r =
     (if strip (stderr r) \<noteq> [] then Text (strip (stderr r))
      else if strip (stdout r) \<noteq> [] then Text (strip (stdout r))
      else UnknownCleanError)"

definition stderr_lines :: "string \<Rightarrow> string list" where
  "stderr_lines err = filter (\<lambda>l. l \<noteq> []) (map strip (split_on (CHR 0x0A) err))"

text \<open>The four tests of the classification loop, on the lower-cased line.\<close>

definition is_timeout_param :: "string \<Rightarrow> bool" where
  "is_timeout_param line =
     (contains ''transaction_timeout'' (lower line) \<and>
      contains ''unrecognized configuration parameter'' (lower line))"

definition is_timeout_command :: "string \<Rightarrow> bool" where
  "is_timeout_command line =
     (startswith (lower line) ''command was:'' \<and> contains ''transaction_timeout'' (lower line))"

definition has_warning :: "string \<Rightarrow> bool" where
  "has_warning line = contains ''warning:'' (lower line)"

definition has_error :: "string \<Rightarrow> bool" where
  "has_error line = contains ''error:'' (lower line)"

text \<open>The loop over \<open>stderr_lines\<close>; each test that holds ends the line's turn
  (\<open>continue\<close>). The result is \<open>(warnings, errors)\<close>.\<close>

fun classify :: "string list \<Rightarrow> string list \<times> string list" where
  "classify [] = ([], [])"
| "classify (line # rest) =
     (case classify rest of
        (warnings, errors) \<Rightarrow>
          if is_timeout_param line then (line # warnings, errors)
          else if is_timeout_command line then (line # warnings, errors)
          else if has_warning line then (line # warnings, errors)
          else if has_error line then (warnings, line # errors)
          else (warnings, errors))"

text \<open>A result dict of \<open>restore_backup\<close>: the failure with its error, its command and its
  warnings where the source gives them, or the success with message, backup path,
  timestamp and warnings.\<close>

datatype restore_result =
    RestoreFailed msg "string option" "string list option"
  | RestoreOk msg string string "string list"

text \<open>The three \<open>except\<close> clauses; \<open>cmd\<close> is the joined \<open>restore_cmd\<close> when that local
  variable is already bound.\<close>

definition restore_handler :: "world \<Rightarrow> string option \<Rightarrow> exn \<Rightarrow> restore_result" where
  "restore_handler w cmd e =
     (case e of
        CalledProcessError c rc err \<Rightarrow>
          RestoreFailed (case err of Some s \<Rightarrow> Text s | None \<Rightarrow> NoValue)
            (Some (case cmd of Some joined \<Rightarrow> joined | None \<Rightarrow> ''Unknown'')) None
      | FileNotFoundError s \<Rightarrow> RestoreFailed (RestoreToolMissing s) None None
      | _ \<Rightarrow> RestoreFailed (Text (str_exn w e)) None None)"

definition restore_outcome :: "world \<Rightarrow> string \<Rightarrow> proc \<Rightarrow> restore_result act" where
  "restore_outcome w backup_path result h =
     (case classify (stderr_lines (stderr result)) of
        (warnings, errors) \<Rightarrow>
          if returncode result \<noteq> 0 \<and> errors \<noteq> []
          then (Inr (RestoreFailed (Text (join [CHR 0x0A] errors))
                       (Some (join '' '' (restore_cmd w backup_path))) (Some warnings)), [])
          else (Inr (RestoreOk DatabaseRestored backup_path (now_iso w h) warnings), []))"

text \<open>The single \<open>try\<close> of the source is written as two nested ones: an exception of the
  clean step is handled before \<open>restore_cmd\<close> is bound, one of the restore step after.\<close>

definition restore_backup :: "world \<Rightarrow> string \<Rightarrow> restore_result act" where
  "restore_backup w backup_path =
     andthen (path_exists w backup_path) (\<lambda>found.
       if \<not> found then pure (RestoreFailed (BackupMissing backup_path) None None)
       else
         handle
           (andthen (run w (psql_cmd w)) (\<lambda>psql_result.
              if returncode psql_result \<noteq> 0
              then pure (RestoreFailed (SchemaCleanFailed (clean_error_text psql_result))
                           (Some (join '' '' (psql_cmd w))) None)
              else
                handle
                  (andthen (run w (restore_cmd w backup_path)) (\<lambda>result.
                   restore_outcome w backup_path result))
                  (\<lambda>e. pure (restore_handler w (Some (join '' '' (restore_cmd w backup_path))) e))))
           (\<lambda>e. pure (restore_handler w None e)))"

section \<open>crud.py: archive_tables\<close>

text \<open>\<open>pd.read_sql_query\<close>; of the frame it returns only \<open>len(data)\<close> is used here.\<close>

definition read_sql :: "world \<Rightarrow> string \<Rightarrow> nat act" where
  "read_sql w q h =
     (case fails w h (ReadSql q) of
        Some e \<Rightarrow> (Inl e, [(ReadSql q, False)])
      | None \<Rightarrow> (Inr (frame_len w h q), [(ReadSql q, True)]))"

text \<open>\<open>subprocess.run(cmd, env=env, check=True)\<close>: a nonzero return code raises
  \<open>CalledProcessError\<close>; the output is not captured, so its \<open>stderr\<close> is \<open>None\<close>.\<close>

definition run_checked :: "world \<Rightarrow> string list \<Rightarrow> unit act" where
  "run_checked w cmd h =
     (case fails w h (Run cmd) of
        Some e \<Rightarrow> (Inl e, [(Run cmd, False)])
      | None \<Rightarrow>
          if returncode (run_result w h cmd) \<noteq> 0
          then (Inl (CalledProcessError cmd (returncode (run_result w h cmd)) None),
                [(Run cmd, False)])
          else (Inr (), [(Run cmd, True)]))"

definition dump_cmd :: "world \<Rightarrow> string \<Rightarrow> string \<Rightarrow> string list" where
  "dump_cmd w table backup_path =
     [''pg_dump'',
      ''-h'', env_or w ''DB_HOST'' ''localhost'',
      ''-p'', env_or w ''DB_PORT'' ''5432'',
      ''-U'', env_or w ''DB_USER'' ''lib_admin'',
      ''-d'', env_or w ''DB_NAME'' ''library_management'',
      ''-t'', table,
      ''-F'', ''c'',
      ''-f'', backup_path]"

text \<open>The statements of the purge step, in the order the source executes them.\<close>

definition purge_statements :: "string \<Rightarrow> string list" where
  "purge_statements table =
     (if table \<in> set [''books'', ''readers'', ''authors'', ''genres'', ''publishers'']
      then
        (if table = ''books''
         then [''DELETE FROM book_loans WHERE book_id IN (SELECT book_id FROM books)'',
               ''DELETE FROM book_authors'',
               ''DELETE FROM book_genres'']
         else if table = ''readers''
         then [''DELETE FROM book_loans WHERE reader_id IN (SELECT reader_id FROM readers)'']
         else []) @ [''DELETE FROM '' @ table]
      else [''DELETE FROM '' @ table])"

fun execute_all :: "world \<Rightarrow> string list \<Rightarrow> unit act" where
  "execute_all w [] = pure ()"
| "execute_all w (q # qs) = andthen (execute w q []) (\<lambda>cur. execute_all w qs)"

text \<open>An entry of the report's \<open>tables\<close> list: name, rows archived and the three paths,
  or name and error.\<close>

datatype archive_entry =
    Archived string nat string string string
  | ArchiveError string string

text \<open>The body of the loop over \<open>tables\<close>, with its \<open>try\<close>.\<close>

definition archive_table :: "world \<Rightarrow> string \<Rightarrow> string \<Rightarrow> archive_entry act" where
  "archive_table w archive_subdir table =
     handle
       (andthen (with_conn w (read_sql w (''SELECT * FROM '' @ table))) (\<lambda>n.
        andthen (do_call w (ToExcel (path_join archive_subdir (table @ ''.xlsx'')))) (\<lambda>_.
        andthen (do_call w (ToJson (path_join archive_subdir (table @ ''.json'')))) (\<lambda>_.
        andthen (run_checked w
                   (dump_cmd w table (path_join archive_subdir (table @ ''.backup'')))) (\<lambda>_.
        andthen (with_conn w
                   (andthen (execute_all w (purge_statements table)) (\<lambda>_.
                    do_call w Commit))) (\<lambda>_.
        pure (Archived table n
                (path_join archive_subdir (table @ ''.xlsx''))
                (path_join archive_subdir (table @ ''.json''))
                (path_join archive_subdir (table @ ''.backup'')))))))))
       (\<lambda>e. pure (ArchiveError table (str_exn w e)))"

fun archive_loop :: "world \<Rightarrow> string \<Rightarrow> string list \<Rightarrow> archive_entry list act" where
  "archive_loop w archive_subdir [] = pure []"
| "archive_loop w archive_subdir (table # rest) =
     andthen (archive_table w archive_subdir table) (\<lambda>entry.
     andthen (archive_loop w archive_subdir rest) (\<lambda>entries.
     pure (entry # entries)))"

fun rows_archived :: "archive_entry \<Rightarrow> nat" where
  "rows_archived (Archived name n excel_path json_path backup_path) = n"
| "rows_archived (ArchiveError name err) = 0"

fun entry_name :: "archive_entry \<Rightarrow> string" where
  "entry_name (Archived name n excel_path json_path backup_path) = name"
| "entry_name (ArchiveError name err) = name"

record archive_report =
  timestamp :: string
  tables :: "archive_entry list"
  reason :: string
  total_rows_archived :: nat
  report_path :: string

definition archive_tables :: "world \<Rightarrow> string list \<Rightarrow> string \<Rightarrow> archive_report act" where
  "archive_tables w table_names why h =
     (andthen (do_call w (Makedirs (path_join (env_or w ''ARCHIVE_DIR'' ''archives'')
                                      (now_stamp w h)))) (\<lambda>_.
      andthen (archive_loop w (path_join (env_or w ''ARCHIVE_DIR'' ''archives'') (now_stamp w h))
                 table_names) (\<lambda>entries.
      andthen (do_call w (WriteReport
                 (path_join (path_join (env_or w ''ARCHIVE_DIR'' ''archives'') (now_stamp w h))
                    ''archive_report.json''))) (\<lambda>_.
      pure \<lparr>timestamp = now_stamp w h, tables = entries, reason = why,
            total_rows_archived = sum_list (map rows_archived entries),
            report_path = path_join (path_join (env_or w ''ARCHIVE_DIR'' ''archives'')
                                       (now_stamp w h)) ''archive_report.json''\<rparr>)))) h"


section \<open>Reading a list of events\<close>

text \<open>The statements a list of events sent to the database, with their parameters,
  whether or not the database accepted them.\<close>

fun executed :: "event list \<Rightarrow> (string \<times> val list) list" where
  "executed [] = []"
| "executed ((Execute q ps, ok) # evs) = (q, ps) # executed evs"
| "executed (ev # evs) = executed evs"

text \<open>The events at which the open transaction is committed: a \<open>conn.commit()\<close> that
  returned, and the end of a connection block that was left normally.\<close>

fun commit_point :: "event \<Rightarrow> bool" where
  "commit_point (Commit, ok) = ok"
| "commit_point (ConnExit left_normally, ok) = (left_normally \<and> ok)"
| "commit_point ev = False"

definition committed :: "event list \<Rightarrow> bool" where
  "committed evs = list_ex commit_point evs"

text \<open>The commands a list of events ran as subprocesses.\<close>

fun ran :: "event list \<Rightarrow> string list list" where
  "ran [] = []"
| "ran ((Run cmd, ok) # evs) = cmd # ran evs"
| "ran (ev # evs) = ran evs"

text \<open>Connection attempts and closes among the events.\<close>

fun is_connect_call :: "event \<Rightarrow> bool" where
  "is_connect_call (Connect args, ok) = True"
| "is_connect_call ev = False"

fun is_close_call :: "event \<Rightarrow> bool" where
  "is_close_call (Close, ok) = True"
| "is_close_call ev = False"

definition connects :: "event list \<Rightarrow> nat" where
  "connects evs = length (filter is_connect_call evs)"

definition closes :: "event list \<Rightarrow> nat" where
  "closes evs = length (filter is_close_call evs)"

text \<open>An action that neither connects nor closes.\<close>

definition quiet :: "'a act \<Rightarrow> bool" where
  "quiet m = (\<forall>h. \<forall>ev \<in> set (snd (m h)). \<not> is_connect_call ev \<and> \<not> is_close_call ev)"

text \<open>An action that attempts at most \<open>n\<close> connections.\<close>

definition opens_at_most :: "nat \<Rightarrow> 'a act \<Rightarrow> bool" where
  "opens_at_most n m = (\<forall>h. connects (snd (m h)) \<le> n)"

section \<open>Worlds for the examples\<close>

text \<open>A world that does not look at the history: \<open>bad\<close> names the calls that raise,
  \<open>cur\<close> gives the cursor after each statement and \<open>pr\<close> the result of each command.\<close>

definition stub_world ::
    "(call \<Rightarrow> exn option) \<Rightarrow> (string \<Rightarrow> cursor) \<Rightarrow> (string list \<Rightarrow> proc) \<Rightarrow> world" where
  "stub_world bad cur pr =
     \<lparr>fails = (\<lambda>h c. bad c),
      cursor_of = (\<lambda>h q ps. cur q),
      run_result = (\<lambda>h cmd. pr cmd),
      exists_path = (\<lambda>h p. True),
      frame_len = (\<lambda>h q. 3),
      getenv = (\<lambda>name. None),
      clock = (\<lambda>h. int (length h)),
      now_iso = (\<lambda>h. ''2024-01-01T00:00:00''),
      now_stamp = (\<lambda>h. ''20240101_000000''),
      file_size = (\<lambda>h p. 2048),
      exception_text = (\<lambda>e. ''error'')\<rparr>"

definition no_failure :: "call \<Rightarrow> exn option" where
  "no_failure c = None"

definition no_connection :: "call \<Rightarrow> exn option" where
  "no_connection c =
     (case c of Connect args \<Rightarrow> Some (OtherException ''connection refused'') | _ \<Rightarrow> None)"

definition rows_cursor :: "string list \<Rightarrow> val list list \<Rightarrow> string \<Rightarrow> cursor" where
  "rows_cursor names rs q = \<lparr>description = Some names, rows = rs, rowcount = int (length rs)\<rparr>"

definition quiet_proc :: "string list \<Rightarrow> proc" where
  "quiet_proc cmd = \<lparr>returncode = 0, stdout = [], stderr = []\<rparr>"

definition columns_rows :: "val list list" where
  "columns_rows =
     [[VStr ''book_id'', VStr ''integer'', VStr ''NO'', VStr ''nextval()''],
      [VStr ''title'', VStr ''text'', VStr ''YES'', VNone]]"

definition books_cursor :: "string \<Rightarrow> cursor" where
  "books_cursor q =
     (if q = column_names_query
      then rows_cursor [''column_name''] [[VStr ''title''], [VStr ''book_id''], [VStr ''author_id'']] q
      else rows_cursor [''count''] [[VInt 2]] q)"

definition no_execute :: "call \<Rightarrow> exn option" where
  "no_execute c =
     (case c of Execute q ps \<Rightarrow> Some (OtherException ''syntax error'') | _ \<Rightarrow> None)"

definition count_cursor :: "int \<Rightarrow> string \<Rightarrow> cursor" where
  "count_cursor n q = \<lparr>description = None, rows = [], rowcount = n\<rparr>"

definition record_cursor :: "string \<Rightarrow> cursor" where
  "record_cursor q =
     rows_cursor [''c1'', ''c2'', ''c3'', ''c4'']
       [[VStr ''book_id'', VStr ''integer'', VStr ''NO'', VNone]] q"

text \<open>Subprocess results: \<open>psql\<close> fails with a message, or \<open>pg_restore\<close> ends with
  return code 1 and the given text on its standard error.\<close>

definition failing_psql :: "string list \<Rightarrow> proc" where
  "failing_psql cmd =
     (if hd cmd = ''psql''
      then \<lparr>returncode = 2, stdout = [], stderr = ''psql: error: connection refused''\<rparr>
      else \<lparr>returncode = 0, stdout = [], stderr = []\<rparr>)"

definition failing_restore :: "string \<Rightarrow> string list \<Rightarrow> proc" where
  "failing_restore err cmd =
     (if hd cmd = ''pg_restore''
      then \<lparr>returncode = 1, stdout = [], stderr = err\<rparr>
      else \<lparr>returncode = 0, stdout = [], stderr = []\<rparr>)"

definition timeout_line :: string where
  "timeout_line = ''pg_restore: error: unrecognized configuration parameter transaction_timeout''"

definition restore_stderr :: string where
  "restore_stderr =
     ''pg_restore: WARNING: no privileges'' @ [CHR 0x0A] @
     ''  pg_restore: error: could not execute query  '' @ [CHR 0x0A] @
     [CHR 0x0A] @
     ''Command was: SET transaction_timeout = 0;''"



section \<open>The claims' own words\<close>

text \<open>The sort column as the specification describes it: the first column name ending
  in \<open>_id\<close>, otherwise the first column, otherwise \<open>ctid\<close>.\<close>

definition sort_choice :: "string list \<Rightarrow> string" where
  "sort_choice names =
     (case find (\<lambda>c. endswith c ''_id'') names of
        Some c \<Rightarrow> c
      | None \<Rightarrow> (case names of [] \<Rightarrow> ''ctid'' | c # cs \<Rightarrow> c))"

text \<open>The dependency the specification names for each of the four guarded tables: the
  counting query, the key of the condition it takes its parameter from, and the name
  the count is reported under.\<close>

definition dependency_of :: "string \<Rightarrow> string \<times> string \<times> string" where
  "dependency_of table_name =
     (if table_name = ''authors''
      then (''SELECT COUNT(*) FROM book_authors ba JOIN books b ON ba.book_id = b.book_id WHERE ba.author_id = %s;'',
            ''author_id'', ''books'')
      else if table_name = ''genres''
      then (''SELECT COUNT(*) FROM book_genres bg JOIN books b ON bg.book_id = b.book_id WHERE bg.genre_id = %s;'',
            ''genre_id'', ''books'')
      else if table_name = ''publishers''
      then (''SELECT COUNT(*) FROM books WHERE publisher_id = %s;'', ''publisher_id'', ''books'')
      else (''SELECT COUNT(*) FROM book_loans WHERE reader_id = %s AND is_returned = false;'',
            ''reader_id'', ''active_loans''))"

section \<open>Properties\<close>

lemmas act_defs = pure_def throw_def andthen_def handle_def do_call_def lift_def
  get_connection_def with_conn_def with_connection_context_def execute_def
  fetchone_def fetchall_def

subsection \<open>get_primary_key\<close>

lemma get_primary_key_cases:
  "let h1 = h @ [(Connect (connect_args w), True)];
       cur = cursor_of w h1 pk_query [VStr t];
       db_ok = (fails w h (Connect (connect_args w)) = None \<and>
                fails w h1 (Execute pk_query [VStr t]) = None \<and>
                description cur \<noteq> None \<and>
                fails w (h1 @ [(Execute pk_query [VStr t], True)]) (ConnExit True) = None)
   in (\<exists>v. fst (get_primary_key w t h) = Inr v) \<and>
      (db_ok \<longrightarrow> (\<forall>x xs rest. rows cur = (x # xs) # rest \<longrightarrow>
                      fst (get_primary_key w t h) = Inr x)) \<and>
      (db_ok \<longrightarrow> rows cur = [] \<longrightarrow> fst (get_primary_key w t h) = Inr (VStr ''id'')) \<and>
      (\<not> db_ok \<longrightarrow> fst (get_primary_key w t h) = Inr (VStr ''id''))"
  unfolding Let_def get_primary_key_def act_defs pk_of_row_def
  by (auto split: option.splits prod.splits sum.splits list.splits)

subsection \<open>get_table_columns\<close>

lemma map_exn_column_dict:
  "\<forall>col \<in> set rs. 4 \<le> length col \<Longrightarrow>
   map_exn column_dict rs =
     Inr (map (\<lambda>col. \<lparr>col_name = col ! 0, col_type = col ! 1,
                        col_nullable = (col ! 2 = VStr ''YES''), col_default = col ! 3\<rparr>) rs)"
  by (induction rs) (auto simp: column_dict_def)

lemma get_table_columns_rows:
  "let h1 = h @ [(Connect (connect_args w), True)];
       cur = cursor_of w h1 columns_query [VStr t]
   in fails w h (Connect (connect_args w)) = None \<and>
      fails w h1 (Execute columns_query [VStr t]) = None \<and>
      description cur \<noteq> None \<and>
      (\<forall>col \<in> set (rows cur). 4 \<le> length col) \<and>
      fails w (h1 @ [(Execute columns_query [VStr t], True)]) (ConnExit True) = None
      \<longrightarrow>
      get_table_columns w t h =
        (Inr (map (\<lambda>col. \<lparr>col_name = col ! 0, col_type = col ! 1,
                            col_nullable = (col ! 2 = VStr ''YES''), col_default = col ! 3\<rparr>)
                (rows cur)),
         [(Connect (connect_args w), True), (Execute columns_query [VStr t], True),
          (ConnExit True, True)])"
  unfolding Let_def get_table_columns_def act_defs
  by (auto simp: map_exn_column_dict split: option.splits prod.splits sum.splits)

subsection \<open>Stepping through an action\<close>


lemma andthen_lift_Inr: "andthen (lift (Inr x)) f h = f x h"
  by (simp add: andthen_def lift_def split: prod.splits)

lemma andthen_lift_Inl: "andthen (lift (Inl e)) f h = (Inl e, [])"
  by (simp add: andthen_def lift_def)

lemma andthen_execute_ok:
  "fails w h (Execute q ps) = None \<Longrightarrow>
   andthen (execute w q ps) f h =
     (fst (f (cursor_of w h q ps) (h @ [(Execute q ps, True)])),
      (Execute q ps, True) # snd (f (cursor_of w h q ps) (h @ [(Execute q ps, True)])))"
  by (simp add: andthen_def execute_def split: prod.splits)

lemma andthen_execute_fail:
  "fails w h (Execute q ps) = Some e \<Longrightarrow>
   andthen (execute w q ps) f h = (Inl e, [(Execute q ps, False)])"
  by (simp add: andthen_def execute_def)

lemma andthen_fetchone_row:
  "description cur = Some d \<Longrightarrow> rows cur = r # rs \<Longrightarrow>
   andthen (fetchone cur) f h = f (Some r, cur\<lparr>rows := rs\<rparr>) h"
  by (simp add: andthen_def fetchone_def pure_def split: prod.splits)

lemma andthen_fetchone_none:
  "description cur = Some d \<Longrightarrow> rows cur = [] \<Longrightarrow>
   andthen (fetchone cur) f h = f (None, cur) h"
  by (simp add: andthen_def fetchone_def pure_def split: prod.splits)

lemma andthen_fetchall:
  "description cur = Some d \<Longrightarrow>
   andthen (fetchall cur) f h = f (rows cur, cur\<lparr>rows := []\<rparr>) h"
  by (simp add: andthen_def fetchall_def pure_def split: prod.splits)

lemma wcc_events:
  "fails w h (Connect (connect_args w)) = None \<Longrightarrow>
   \<exists>rest. snd (with_connection_context w body h) =
     (Connect (connect_args w), True) #
     snd (body (h @ [(Connect (connect_args w), True)])) @ rest"
  unfolding with_connection_context_def andthen_def get_connection_def do_call_def
  by (auto split: option.splits prod.splits sum.splits)

lemma sort_loop_find:
  "sort_loop d (map VStr names) =
     Inr (case find (\<lambda>c. endswith c ''_id'') names of Some c \<Rightarrow> VStr c | None \<Rightarrow> d)"
  by (induction names) auto

lemma ctid_no_suffix: "\<not> endswith ''ctid'' ''_id''"
  by (simp add: endswith_def)

lemma find_endswith: "find P names = Some c \<Longrightarrow> P c"
  by (induction names) (auto split: if_splits)

lemma infer_sort_column_names:
  "infer_sort_column (map VStr names) = Inr (VStr (sort_choice names))"
proof (cases "find (\<lambda>c. endswith c ''_id'') names")
  case None
  then have loop: "sort_loop (VStr ''ctid'') (map VStr names) = Inr (VStr ''ctid'')"
    by (simp add: sort_loop_find)
  show ?thesis
  proof (cases names)
    case Nil
    then show ?thesis
      by (simp add: infer_sort_column_def sort_choice_def)
  next
    case (Cons c cs)
    with None have "sort_choice names = c"
      by (simp only: sort_choice_def option.case list.case)
    with loop Cons show ?thesis
      by (simp add: infer_sort_column_def)
  qed
next
  case (Some c)
  then have "endswith c ''_id''" by (rule find_endswith)
  then have "c \<noteq> ''ctid''" using ctid_no_suffix by auto
  with Some show ?thesis
    by (simp add: infer_sort_column_def sort_loop_find sort_choice_def)
qed

lemma map_exn_item0_names:
  "map_exn item0 (map (\<lambda>c. [VStr c]) names) = Inr (map VStr names)"
  by (induction names) (auto simp: item0_def)

subsection \<open>get_table_data\<close>

lemma get_table_data_page_query:
  "let h1 = h @ [(Connect (connect_args w), True)];
       h2 = h1 @ [(Execute (count_query t) [], True)];
       h3 = h2 @ [(Execute column_names_query [VStr t], True)];
       cur = cursor_of w h1 (count_query t) [];
       cur2 = cursor_of w h2 column_names_query [VStr t];
       page_call = Execute (page_query t (VStr (sort_choice names)))
                     [VInt pg_size, VInt ((pg - 1) * pg_size)]
   in fails w h (Connect (connect_args w)) = None \<and>
      fails w h1 (Execute (count_query t) []) = None \<and>
      description cur \<noteq> None \<and> rows cur = (tc # tcs) # others \<and>
      fails w h2 (Execute column_names_query [VStr t]) = None \<and>
      description cur2 \<noteq> None \<and> rows cur2 = map (\<lambda>c. [VStr c]) names
      \<longrightarrow>
      infer_sort_column (map VStr names) = Inr (VStr (sort_choice names)) \<and>
      (\<exists>rest. snd (get_table_data w t pg pg_size h) =
         [(Connect (connect_args w), True),
          (Execute (count_query t) [], True),
          (Execute column_names_query [VStr t], True),
          (page_call, fails w h3 page_call = None)] @ rest)"
proof -
  define h1 where "h1 = h @ [(Connect (connect_args w), True)]"
  define h2 where "h2 = h1 @ [(Execute (count_query t) [], True)]"
  define h3 where "h3 = h2 @ [(Execute column_names_query [VStr t], True)]"
  define page_call where
    "page_call = Execute (page_query t (VStr (sort_choice names)))
                   [VInt pg_size, VInt ((pg - 1) * pg_size)]"
  have main:
    "\<exists>rest. snd (get_table_data w t pg pg_size h) =
         [(Connect (connect_args w), True),
          (Execute (count_query t) [], True),
          (Execute column_names_query [VStr t], True),
          (page_call, fails w h3 page_call = None)] @ rest"
    if c: "fails w h (Connect (connect_args w)) = None"
      and e1: "fails w h1 (Execute (count_query t) []) = None"
      and d1: "description (cursor_of w h1 (count_query t) []) \<noteq> None"
      and r1: "rows (cursor_of w h1 (count_query t) []) = (tc # tcs) # others"
      and e2: "fails w h2 (Execute column_names_query [VStr t]) = None"
      and d2: "description (cursor_of w h2 column_names_query [VStr t]) \<noteq> None"
      and r2: "rows (cursor_of w h2 column_names_query [VStr t]) = map (\<lambda>c. [VStr c]) names"
  proof -
    from d1 obtain ds1 where d1': "description (cursor_of w h1 (count_query t) []) = Some ds1"
      by auto
    from d2 obtain ds2 where
      d2': "description (cursor_of w h2 column_names_query [VStr t]) = Some ds2"
      by auto
    have ff: "first_field (Some (tc # tcs)) = Inr tc"
      by (simp add: first_field_def item0_def)
    obtain rest where rest:
      "snd (get_table_data w t pg pg_size h) =
         (Connect (connect_args w), True) #
         snd ((andthen (execute w (count_query t) []) (\<lambda>cur.
        andthen (fetchone cur) (\<lambda>(first, cur').
        andthen (lift (first_field first)) (\<lambda>total.
        andthen (execute w column_names_query [VStr t]) (\<lambda>cur2.
        andthen (fetchall cur2) (\<lambda>(fetched, cur2').
        andthen (lift (map_exn item0 fetched)) (\<lambda>cols.
        andthen (lift (infer_sort_column cols)) (\<lambda>sort_column.
        andthen (execute w (page_query t sort_column)
                   [VInt pg_size, VInt ((pg - 1) * pg_size)]) (\<lambda>cur3.
        andthen (fetchall cur3) (\<lambda>(fetched_rows, cur3').
        andthen (lift (map_exn (row_to_dict cols) fetched_rows)) (\<lambda>dicts.
        andthen (lift (total_pages_of total pg_size)) (\<lambda>pages.
        pure \<lparr>total_count = total, page = pg, page_size = pg_size, total_pages = pages,
              data = dicts, columns = cols\<rparr>)))))))))))) h1) @ rest"
      unfolding get_table_data_def h1_def using wcc_events[OF c] by blast
    show ?thesis
    proof (cases "fails w h3 page_call")
      case None
      then show ?thesis
        unfolding rest
        using e1 e2 d1' d2' r1 r2 ff
        by (simp add: andthen_execute_ok andthen_fetchone_row andthen_fetchall
              andthen_lift_Inr infer_sort_column_names map_exn_item0_names
              h2_def[symmetric] h3_def[symmetric] page_call_def[symmetric])
    next
      case (Some e)
      then show ?thesis
        unfolding rest
        using e1 e2 d1' d2' r1 r2 ff
        by (simp add: andthen_execute_ok andthen_execute_fail andthen_fetchone_row
              andthen_fetchall andthen_lift_Inr infer_sort_column_names map_exn_item0_names
              h2_def[symmetric] h3_def[symmetric] page_call_def[symmetric])
    qed
  qed
  show ?thesis
    unfolding Let_def
    using main infer_sort_column_names
    by (simp add: h1_def h2_def h3_def page_call_def)
qed

subsection \<open>Connection blocks and executed statements\<close>

lemma executed_append: "executed (xs @ ys) = executed xs @ executed ys"
  by (induction xs rule: executed.induct) auto

lemma wcc_ok:
  "fails w h (Connect (connect_args w)) = None \<Longrightarrow>
   body (h @ [(Connect (connect_args w), True)]) = (Inr x, evs) \<Longrightarrow>
   with_connection_context w body h =
     (case fails w (h @ (Connect (connect_args w), True) # evs) Close of
        None \<Rightarrow> (Inr x, (Connect (connect_args w), True) # evs @ [(Close, True)])
      | Some e \<Rightarrow> (Inl e, (Connect (connect_args w), True) # evs @ [(Close, False)]))"
  unfolding with_connection_context_def andthen_def get_connection_def do_call_def
  by (auto split: option.splits)

lemma wcc_raise:
  "fails w h (Connect (connect_args w)) = None \<Longrightarrow>
   body (h @ [(Connect (connect_args w), True)]) = (Inl e, evs) \<Longrightarrow>
   \<exists>e' rb cl. with_connection_context w body h =
     (Inl e', (Connect (connect_args w), True) # evs @ [(Rollback, rb), (Close, cl)])"
  unfolding with_connection_context_def andthen_def get_connection_def do_call_def
  by (auto split: option.splits)

lemma andthen_fetchone:
  "description cur = Some d \<Longrightarrow>
   andthen (fetchone cur) f h =
     f (case rows cur of [] \<Rightarrow> None | r # rs \<Rightarrow> Some r,
        case rows cur of [] \<Rightarrow> cur | r # rs \<Rightarrow> cur\<lparr>rows := rs\<rparr>) h"
  by (cases "rows cur") (simp_all add: andthen_fetchone_row andthen_fetchone_none)

lemma executed_handle_wcc:
  assumes "fails w h (Connect (connect_args w)) = None"
  shows "executed (snd (handle (with_connection_context w body) (\<lambda>e. pure (g e)) h)) =
         executed (snd (body (h @ [(Connect (connect_args w), True)])))"
proof (cases "body (h @ [(Connect (connect_args w), True)])")
  case (Pair r evs)
  show ?thesis
  proof (cases r)
    case (Inl e)
    with Pair wcc_raise[OF assms, of body e evs] show ?thesis
      by (auto simp: handle_def pure_def executed_append)
  next
    case (Inr x)
    with Pair wcc_ok[OF assms, of body x evs] show ?thesis
      by (auto simp: handle_def pure_def executed_append split: option.splits)
  qed
qed

lemma result_handle_wcc:
  assumes "fails w h (Connect (connect_args w)) = None"
    and "body (h @ [(Connect (connect_args w), True)]) = (Inr x, evs)"
  shows "fst (handle (with_connection_context w body) (\<lambda>e. pure (g e)) h) =
         Inr (case fails w (h @ (Connect (connect_args w), True) # evs) Close of
                None \<Rightarrow> x | Some e \<Rightarrow> g e)"
  using wcc_ok[where body = body and x = x and evs = evs, OF assms]
  by (auto simp: handle_def pure_def split: option.splits)

subsection \<open>update_record\<close>

lemma build_set_filter:
  "build_set pk dat =
     (map (\<lambda>(k, v). k @ '' = %s'')
        (filter (\<lambda>(k, v). VStr k \<noteq> pk \<and> v \<noteq> VStr [] \<and> v \<noteq> VNone) dat),
      map snd (filter (\<lambda>(k, v). VStr k \<noteq> pk \<and> v \<noteq> VStr [] \<and> v \<noteq> VNone) dat))"
  by (induction pk dat rule: build_set.induct) simp_all

lemma build_set_member:
  "k @ '' = %s'' \<in> set (fst (build_set pk dat)) \<Longrightarrow>
   VStr k \<noteq> pk \<and> (\<exists>v. (k, v) \<in> set dat \<and> v \<noteq> VStr [] \<and> v \<noteq> VNone)"
  by (auto simp: build_set_filter)


lemma update_record_statements:
  "let h1 = h @ [(Connect (connect_args w), True)];
       cur = cursor_of w h1 pk_query [VStr t];
       pk = pk_of_row (case rows cur of [] \<Rightarrow> None | r # rs \<Rightarrow> Some r);
       set_parts = fst (build_set pk dat);
       vals = snd (build_set pk dat)
   in (\<forall>k. k @ '' = %s'' \<in> set set_parts \<longrightarrow>
           VStr k \<noteq> pk \<and> (\<exists>v. (k, v) \<in> set dat \<and> v \<noteq> VStr [] \<and> v \<noteq> VNone)) \<and>
      (fails w h (Connect (connect_args w)) = None \<and>
       fails w h1 (Execute pk_query [VStr t]) = None \<and>
       description cur \<noteq> None \<longrightarrow>
         executed (snd (update_record w t rid dat h)) =
           (if set_parts = [] then [(pk_query, [VStr t])]
            else [(pk_query, [VStr t]), (update_query t set_parts pk, vals @ [rid])]) \<and>
         (set_parts = [] \<longrightarrow> (\<exists>m. fst (update_record w t rid dat h) = Inr (Failure m))))"
proof -
  define h1 where "h1 = h @ [(Connect (connect_args w), True)]"
  define cur where "cur = cursor_of w h1 pk_query [VStr t]"
  define pk where "pk = pk_of_row (case rows cur of [] \<Rightarrow> None | r # rs \<Rightarrow> Some r)"
  define body where
    "body = andthen (execute w pk_query [VStr t]) (\<lambda>cur.
           andthen (fetchone cur) (\<lambda>(pk_result, cur').
             (case build_set (pk_of_row pk_result) dat of
                (set_parts, vals) \<Rightarrow>
                  if set_parts = [] then pure (Failure NoUpdateData)
                  else
                    andthen (execute w (update_query t set_parts (pk_of_row pk_result))
                               (vals @ [rid])) (\<lambda>cur2.
                    andthen (do_call w Commit) (\<lambda>_.
                    pure (Success RecordUpdated))))))"
  have upd: "update_record w t rid dat =
      handle (with_connection_context w body) (\<lambda>e. pure (Failure (Text (str_exn w e))))"
    unfolding update_record_def body_def ..
  have part1: "\<forall>k. k @ '' = %s'' \<in> set (fst (build_set pk dat)) \<longrightarrow>
           VStr k \<noteq> pk \<and> (\<exists>v. (k, v) \<in> set dat \<and> v \<noteq> VStr [] \<and> v \<noteq> VNone)"
    using build_set_member by blast
  have part2:
    "executed (snd (update_record w t rid dat h)) =
       (if fst (build_set pk dat) = [] then [(pk_query, [VStr t])]
        else [(pk_query, [VStr t]),
              (update_query t (fst (build_set pk dat)) pk, snd (build_set pk dat) @ [rid])]) \<and>
     (fst (build_set pk dat) = [] \<longrightarrow>
        (\<exists>m. fst (update_record w t rid dat h) = Inr (Failure m)))"
    if c: "fails w h (Connect (connect_args w)) = None"
      and e1: "fails w h1 (Execute pk_query [VStr t]) = None"
      and d1: "description cur \<noteq> None"
  proof -
    from d1 obtain ds where d1': "description cur = Some ds" by auto
    have ex: "executed (snd (update_record w t rid dat h)) = executed (snd (body h1))"
      unfolding upd h1_def by (rule executed_handle_wcc[OF c])
    show ?thesis
    proof (cases "fst (build_set pk dat) = []")
      case True
      have b: "body h1 = (Inr (Failure NoUpdateData), [(Execute pk_query [VStr t], True)])"
        unfolding body_def using e1 d1' True
        by (simp add: andthen_execute_ok andthen_fetchone cur_def[symmetric] pk_def[symmetric]
              case_prod_beta pure_def)
      have "\<exists>m. fst (update_record w t rid dat h) = Inr (Failure m)"
        unfolding upd
        using result_handle_wcc[where body = body and g = "\<lambda>e. Failure (Text (str_exn w e))",
                OF c b[unfolded h1_def]]
        by (auto split: option.splits)
      with True ex b show ?thesis by simp
    next
      case False
      have "executed (snd (body h1)) =
          [(pk_query, [VStr t]),
           (update_query t (fst (build_set pk dat)) pk, snd (build_set pk dat) @ [rid])]"
        unfolding body_def using e1 d1' False
        by (simp add: andthen_execute_ok andthen_fetchone cur_def[symmetric] pk_def[symmetric]
              case_prod_beta)
           (auto simp: andthen_def execute_def do_call_def pure_def split: option.splits)
      with False ex show ?thesis by simp
    qed
  qed
  show ?thesis
    unfolding Let_def using part1 part2
    by (simp add: h1_def cur_def pk_def)
qed

subsection \<open>The connection object as a block\<close>

lemma with_conn_ok:
  "fails w h (Connect (connect_args w)) = None \<Longrightarrow>
   body (h @ [(Connect (connect_args w), True)]) = (Inr x, evs) \<Longrightarrow>
   with_conn w body h =
     (case fails w (h @ (Connect (connect_args w), True) # evs) (ConnExit True) of
        None \<Rightarrow> (Inr x, (Connect (connect_args w), True) # evs @ [(ConnExit True, True)])
      | Some e \<Rightarrow> (Inl e, (Connect (connect_args w), True) # evs @ [(ConnExit True, False)]))"
  unfolding with_conn_def andthen_def get_connection_def do_call_def
  by (auto split: option.splits)

lemma with_conn_raise:
  "fails w h (Connect (connect_args w)) = None \<Longrightarrow>
   body (h @ [(Connect (connect_args w), True)]) = (Inl e, evs) \<Longrightarrow>
   with_conn w body h =
     (case fails w (h @ (Connect (connect_args w), True) # evs) (ConnExit False) of
        None \<Rightarrow> (Inl e, (Connect (connect_args w), True) # evs @ [(ConnExit False, True)])
      | Some e' \<Rightarrow> (Inl e', (Connect (connect_args w), True) # evs @ [(ConnExit False, False)]))"
  unfolding with_conn_def andthen_def get_connection_def do_call_def
  by (auto split: option.splits)

lemma with_conn_no_connection:
  "fails w h (Connect (connect_args w)) = Some e \<Longrightarrow>
   with_conn w body h = (Inl e, [(Connect (connect_args w), False)])"
  unfolding with_conn_def andthen_def get_connection_def do_call_def
  by simp

subsection \<open>delete_data\<close>

lemma count_dependencies_guarded:
  "table_name \<in> set [''authors'', ''genres'', ''publishers'', ''readers''] \<Longrightarrow>
   count_dependencies w table_name condition =
     count_into w (fst (dependency_of table_name))
       (dict_get condition (fst (snd (dependency_of table_name))))
       (snd (snd (dependency_of table_name)))"
  by (auto simp: count_dependencies_def dependency_of_def authors_dep_query_def
        genres_dep_query_def publishers_dep_query_def readers_dep_query_def)

lemma count_into_row:
  "fails w h (Execute q [p]) = None \<Longrightarrow>
   description (cursor_of w h q [p]) = Some d \<Longrightarrow>
   rows (cursor_of w h q [p]) = (c # cs) # others \<Longrightarrow>
   count_into w q p nm h = (Inr [(nm, c)], [(Execute q [p], True)])"
  unfolding count_into_def
  by (simp add: andthen_execute_ok andthen_fetchone_row first_field_def item0_def
        andthen_lift_Inr pure_def)

text \<open>
  C9. For the tables \<open>authors\<close>, \<open>genres\<close>, \<open>publishers\<close> and \<open>readers\<close>, when the
  connection is open and the counting query of the table's dependency answers with a
  positive count \<open>n\<close>, the counting query is the only statement \<open>delete_data\<close>
  sends, so no DELETE is sent; and, the connection block ending without an error, it
  returns the failure that carries the count under the dependency's name.
\<close>

theorem delete_data_blocked:
  "let h1 = h @ [(Connect (connect_args w), True)];
       q = fst (dependency_of table_name);
       p = dict_get condition (fst (snd (dependency_of table_name)));
       nm = snd (snd (dependency_of table_name));
       cur = cursor_of w h1 q [p]
   in table_name \<in> set [''authors'', ''genres'', ''publishers'', ''readers''] \<and>
      fails w h (Connect (connect_args w)) = None \<and>
      fails w h1 (Execute q [p]) = None \<and>
      description cur \<noteq> None \<and> rows cur = (VInt n # cs) # others \<and> 0 < n
      \<longrightarrow>
      executed (snd (delete_data w table_name condition h)) = [(q, [p])] \<and>
      (fails w (h1 @ [(Execute q [p], True)]) (ConnExit True) = None \<longrightarrow>
         fst (delete_data w table_name condition h) =
           Inr (DelBlocked CannotDeleteDependents [(nm, VInt n)]))"
proof -
  define h1 where "h1 = h @ [(Connect (connect_args w), True)]"
  define q where "q = fst (dependency_of table_name)"
  define p where "p = dict_get condition (fst (snd (dependency_of table_name)))"
  define nm where "nm = snd (snd (dependency_of table_name))"
  define body where
    "body = handle
          (andthen (check_dependencies w table_name condition) (\<lambda>blocked.
             (case blocked of
                Some dependencies \<Rightarrow> pure (DelBlocked CannotDeleteDependents dependencies)
              | None \<Rightarrow>
                  if map (\<lambda>(key, v). key @ '' = %s'') condition = []
                  then pure (DelFailed NoDeleteConditions)
                  else
                    andthen (execute w
                               (delete_where_query table_name
                                  (map (\<lambda>(key, v). key @ '' = %s'') condition))
                               (map snd condition)) (\<lambda>cur.
                    andthen (fetchall cur) (\<lambda>(result, cur').
                    andthen (do_call w Commit) (\<lambda>_.
                    andthen (lift (description_names cur)) (\<lambda>column_names.
                    pure (DelOk (rowcount cur)
                            (map (\<lambda>row. dict_of (zip column_names row)) result)))))))))
          (\<lambda>e.
             andthen (do_call w Rollback) (\<lambda>_.
             pure (DelFailed (Text (str_exn w e)))))"
  have dd: "delete_data w table_name condition = with_conn w body"
    unfolding delete_data_def body_def ..
  have main:
    "executed (snd (delete_data w table_name condition h)) = [(q, [p])] \<and>
      (fails w (h1 @ [(Execute q [p], True)]) (ConnExit True) = None \<longrightarrow>
         fst (delete_data w table_name condition h) =
           Inr (DelBlocked CannotDeleteDependents [(nm, VInt n)]))"
    if g: "table_name \<in> set [''authors'', ''genres'', ''publishers'', ''readers'']"
      and c: "fails w h (Connect (connect_args w)) = None"
      and e1: "fails w h1 (Execute q [p]) = None"
      and d1: "description (cursor_of w h1 q [p]) \<noteq> None"
      and r1: "rows (cursor_of w h1 q [p]) = (VInt n # cs) # others"
      and pos: "0 < n"
  proof -
    from d1 obtain ds where d1': "description (cursor_of w h1 q [p]) = Some ds" by auto
    have cnt: "count_dependencies w table_name condition h1 =
                 (Inr [(nm, VInt n)], [(Execute q [p], True)])"
      unfolding count_dependencies_guarded[OF g] q_def[symmetric] p_def[symmetric]
        nm_def[symmetric]
      by (rule count_into_row[OF e1 d1' r1])
    have chk: "check_dependencies w table_name condition h1 =
                 (Inr (Some [(nm, VInt n)]), [(Execute q [p], True)])"
      using g cnt pos
      by (simp add: check_dependencies_def andthen_def lift_def pure_def positive_def
            int_of_val_def)
    have b: "body h1 =
        (Inr (DelBlocked CannotDeleteDependents [(nm, VInt n)]), [(Execute q [p], True)])"
      unfolding body_def using chk
      by (simp add: handle_def andthen_def pure_def)
    show ?thesis
      unfolding dd
      using with_conn_ok[where body = body, OF c b[unfolded h1_def]]
      by (auto simp: h1_def split: option.splits)
  qed
  show ?thesis
    unfolding Let_def using main
    by (simp add: h1_def q_def p_def nm_def)
qed

text \<open>An author with two books is not deleted.\<close>

theorem delete_data_blocked_witness:
  "fst (delete_data (stub_world no_failure (rows_cursor [''count''] [[VInt 2]]) quiet_proc)
          ''authors'' [(''author_id'', VInt 3)] []) =
     Inr (DelBlocked CannotDeleteDependents [(''books'', VInt 2)]) \<and>
   executed (snd (delete_data
       (stub_world no_failure (rows_cursor [''count''] [[VInt 2]]) quiet_proc)
       ''authors'' [(''author_id'', VInt 3)] [])) =
     [(''SELECT COUNT(*) FROM book_authors ba JOIN books b ON ba.book_id = b.book_id WHERE ba.author_id = %s;'',
       [VInt 3])]"
  using delete_data_blocked
    [where h = "[]"
       and w = "stub_world no_failure (rows_cursor [''count''] [[VInt 2]]) quiet_proc"
       and table_name = "''authors''" and condition = "[(''author_id'', VInt 3)]"
       and n = 2 and cs = "[]" and others = "[]"]
  by (simp add: Let_def stub_world_def no_failure_def rows_cursor_def dependency_of_def
        dict_get_def)

subsection \<open>execute_sql\<close>

lemma andthen_do_call_ok:
  "fails w h c = None \<Longrightarrow>
   andthen (do_call w c) f h = (fst (f () (h @ [(c, True)])), (c, True) # snd (f () (h @ [(c, True)])))"
  by (simp add: andthen_def do_call_def split: prod.splits)


lemma execute_sql_try_done:
  assumes "fails w h1 (Execute q ps) = None"
    and "description (cursor_of w h1 q ps) = None \<or> description (cursor_of w h1 q ps) = Some []"
    and "fails w (h1 @ [(Execute q ps, True)]) Commit = None"
  shows "execute_sql_try w q ps h1 =
     (Inr (SqlDone (QueryDone (rowcount (cursor_of w h1 q ps))) (rowcount (cursor_of w h1 q ps))
             (clock w (h1 @ [(Execute q ps, True), (Commit, True)]) - clock w h1)),
      [(Execute q ps, True), (Commit, True)])"
  using assms(2)
proof
  assume "description (cursor_of w h1 q ps) = None"
  with assms(1,3) show ?thesis
    unfolding execute_sql_try_def handle_def
    by (simp add: andthen_execute_ok andthen_do_call_ok)
next
  assume "description (cursor_of w h1 q ps) = Some []"
  with assms(1,3) show ?thesis
    unfolding execute_sql_try_def handle_def
    by (simp add: andthen_execute_ok andthen_do_call_ok)
qed

lemma execute_sql_try_failed:
  assumes "fails w h1 (Execute q ps) = Some e"
    and "fails w (h1 @ [(Execute q ps, False)]) Rollback = None"
  shows "execute_sql_try w q ps h1 =
     (Inr (SqlFailed (str_exn w e)
             (clock w (h1 @ [(Execute q ps, False), (Rollback, True)]) - clock w h1)),
      [(Execute q ps, False), (Rollback, True)])"
  unfolding execute_sql_try_def handle_def
  using assms
  by (simp add: andthen_execute_fail andthen_do_call_ok)

lemma handle_rollback_returns:
  assumes "\<forall>h'. fails w h' Rollback = None"
  shows "\<exists>r evs. handle m (\<lambda>e. andthen (do_call w Rollback) (\<lambda>_. (\<lambda>h'. (Inr (g e h'), [])))) h
           = (Inr r, evs)"
proof (cases "m h")
  case (Pair r evs)
  with assms show ?thesis
    by (cases r) (simp_all add: handle_def andthen_do_call_ok)
qed

lemma execute_sql_try_returns:
  assumes "\<forall>h'. fails w h' Rollback = None"
  shows "\<exists>r evs. execute_sql_try w q ps h1 = (Inr r, evs)"
  unfolding execute_sql_try_def
  by (rule handle_rollback_returns
        [where g = "\<lambda>e h'. SqlFailed (str_exn w e) (clock w h' - clock w h1)", OF assms])


subsection \<open>Connections opened and closed\<close>

lemma quiet_pure: "quiet (pure x)"
  by (simp add: quiet_def pure_def)

lemma quiet_lift: "quiet (lift r)"
  by (simp add: quiet_def lift_def)

lemma quiet_execute: "quiet (execute w q ps)"
  by (simp add: quiet_def execute_def split: option.splits)

lemma quiet_fetchone: "quiet (fetchone cur)"
  by (simp add: quiet_def fetchone_def pure_def throw_def split: option.splits list.splits)

lemma quiet_fetchall: "quiet (fetchall cur)"
  by (simp add: quiet_def fetchall_def pure_def throw_def split: option.splits)

lemma quiet_commit: "quiet (do_call w Commit)"
  by (simp add: quiet_def do_call_def split: option.splits)

lemma quiet_andthen: "quiet m \<Longrightarrow> (\<And>x. quiet (f x)) \<Longrightarrow> quiet (andthen m f)"
  unfolding quiet_def andthen_def
  by (auto split: prod.splits sum.splits) (metis snd_conv)+

lemma quiet_if: "quiet a \<Longrightarrow> quiet b \<Longrightarrow> quiet (if c then a else b)"
  by simp

lemma quiet_case_prod: "(\<And>a b. quiet (f a b)) \<Longrightarrow> quiet (case p of (a, b) \<Rightarrow> f a b)"
  by (cases p) simp

lemma connects_append: "connects (xs @ ys) = connects xs + connects ys"
  by (simp add: connects_def)

lemma closes_append: "closes (xs @ ys) = closes xs + closes ys"
  by (simp add: closes_def)

lemma quiet_counts: "quiet m \<Longrightarrow> connects (snd (m h)) = 0 \<and> closes (snd (m h)) = 0"
  by (auto simp: quiet_def connects_def closes_def filter_empty_conv)

lemma wcc_connection_events:
  assumes "quiet body"
  shows "connects (snd (with_connection_context w body h)) = 1 \<and>
         (if fails w h (Connect (connect_args w)) = None
          then closes (snd (with_connection_context w body h)) = 1 \<and>
               fst (last (snd (with_connection_context w body h))) = Close
          else closes (snd (with_connection_context w body h)) = 0)"
proof (cases "fails w h (Connect (connect_args w))")
  case (Some e)
  then show ?thesis
    by (simp add: with_connection_context_def andthen_def get_connection_def do_call_def
          connects_def closes_def)
next
  case None
  obtain r evs where b: "body (h @ [(Connect (connect_args w), True)]) = (r, evs)"
    by (cases "body (h @ [(Connect (connect_args w), True)])") auto
  from quiet_counts[OF assms, of "h @ [(Connect (connect_args w), True)]"] b
  have q: "connects evs = 0" "closes evs = 0" by simp_all
  show ?thesis
  proof (cases r)
    case (Inr x)
    with b wcc_ok[where body = body, OF None] q None show ?thesis
      by (auto simp: connects_def closes_def split: option.splits)
  next
    case (Inl e)
    with b wcc_raise[where body = body, OF None] q None show ?thesis
      by (auto simp: connects_def closes_def)
  qed
qed

lemma snd_handle_pure: "snd (handle m (\<lambda>e. pure (g e)) h) = snd (m h)"
  by (cases "m h") (auto simp: handle_def pure_def split: sum.splits)

lemmas quiet_intros = quiet_pure quiet_lift quiet_execute quiet_fetchone quiet_fetchall
  quiet_commit quiet_andthen quiet_if quiet_case_prod

lemma get_tables_connection:
  "connects (snd (get_tables w h)) = 1 \<and>
   (if fails w h (Connect (connect_args w)) = None
    then closes (snd (get_tables w h)) = 1 \<and> fst (last (snd (get_tables w h))) = Close
    else closes (snd (get_tables w h)) = 0)"
  unfolding get_tables_def
  by (rule wcc_connection_events) (intro quiet_intros)

lemma update_record_connection:
  "connects (snd (update_record w t rid dat h)) = 1 \<and>
   (if fails w h (Connect (connect_args w)) = None
    then closes (snd (update_record w t rid dat h)) = 1 \<and>
         fst (last (snd (update_record w t rid dat h))) = Close
    else closes (snd (update_record w t rid dat h)) = 0)"
  unfolding update_record_def snd_handle_pure
  by (rule wcc_connection_events) (intro quiet_intros)

lemma delete_record_connection:
  "connects (snd (delete_record w t rid h)) = 1 \<and>
   (if fails w h (Connect (connect_args w)) = None
    then closes (snd (delete_record w t rid h)) = 1 \<and>
         fst (last (snd (delete_record w t rid h))) = Close
    else closes (snd (delete_record w t rid h)) = 0)"
  unfolding delete_record_def snd_handle_pure
  by (rule wcc_connection_events) (intro quiet_intros)

lemma get_table_data_connection:
  "connects (snd (get_table_data w t pg pg_size h)) = 1 \<and>
   (if fails w h (Connect (connect_args w)) = None
    then closes (snd (get_table_data w t pg pg_size h)) = 1 \<and>
         fst (last (snd (get_table_data w t pg pg_size h))) = Close
    else closes (snd (get_table_data w t pg pg_size h)) = 0)"
  unfolding get_table_data_def
  by (rule wcc_connection_events) (intro quiet_intros)

lemma quiet_handle: "quiet m \<Longrightarrow> (\<And>e. quiet (hdl e)) \<Longrightarrow> quiet (handle m hdl)"
  unfolding quiet_def handle_def
  by (auto split: prod.splits sum.splits) (metis snd_conv)+

lemma quiet_rollback: "quiet (do_call w Rollback)"
  by (simp add: quiet_def do_call_def split: option.splits)

lemma quiet_silent: "quiet (\<lambda>h. (r h, []))"
  by (simp add: quiet_def)

lemma quiet_case_option:
  "quiet a \<Longrightarrow> (\<And>x. quiet (f x)) \<Longrightarrow> quiet (case v of None \<Rightarrow> a | Some x \<Rightarrow> f x)"
  by (cases v) simp_all

lemma quiet_case_list:
  "quiet a \<Longrightarrow> (\<And>x xs. quiet (f x xs)) \<Longrightarrow> quiet (case v of [] \<Rightarrow> a | x # xs \<Rightarrow> f x xs)"
  by (cases v) simp_all

lemma with_conn_connects:
  assumes "quiet body"
  shows "connects (snd (with_conn w body h)) = 1"
proof (cases "fails w h (Connect (connect_args w))")
  case (Some e)
  then show ?thesis
    by (simp add: with_conn_no_connection connects_def)
next
  case None
  obtain r evs where b: "body (h @ [(Connect (connect_args w), True)]) = (r, evs)"
    by (cases "body (h @ [(Connect (connect_args w), True)])") auto
  from quiet_counts[OF assms, of "h @ [(Connect (connect_args w), True)]"] b
  have q: "connects evs = 0" by simp
  show ?thesis
  proof (cases r)
    case (Inr x)
    with b with_conn_ok[where body = body, OF None] q show ?thesis
      by (auto simp: connects_def split: option.splits)
  next
    case (Inl e)
    with b with_conn_raise[where body = body, OF None] q show ?thesis
      by (auto simp: connects_def split: option.splits)
  qed
qed

lemmas quiet_more = quiet_intros quiet_handle quiet_rollback quiet_silent quiet_case_option
  quiet_case_list

lemma get_table_columns_connects: "connects (snd (get_table_columns w t h)) = 1"
  unfolding get_table_columns_def
  by (rule with_conn_connects) (intro quiet_more)

lemma get_primary_key_connects: "connects (snd (get_primary_key w t h)) = 1"
  unfolding get_primary_key_def snd_handle_pure
  by (rule with_conn_connects) (intro quiet_more)

lemma quiet_execute_sql_try: "quiet (execute_sql_try w q ps)"
proof -
  have "quiet (handle
       (andthen (execute w q ps) (\<lambda>cur.
          (case description cur of
             Some (d # ds) \<Rightarrow>
               andthen (fetchall cur) (\<lambda>(fetched, cur').
               andthen (lift (map_exn (row_to_dict (d # ds)) fetched)) (\<lambda>dicts.
               (\<lambda>h'. (Inr (SqlRows dicts (d # ds) (rowcount cur) (clock w h' - clock w h)), []))))
           | _ \<Rightarrow>
               andthen (do_call w Commit) (\<lambda>_.
               (\<lambda>h'. (Inr (SqlDone (QueryDone (rowcount cur)) (rowcount cur)
                              (clock w h' - clock w h)), []))))))
       (\<lambda>e.
          andthen (do_call w Rollback) (\<lambda>_.
          (\<lambda>h'. (Inr (SqlFailed (str_exn w e) (clock w h' - clock w h)), [])))))" for h
    by (intro quiet_more)
  then show ?thesis
    unfolding quiet_def execute_sql_try_def by blast
qed

lemma execute_sql_connects: "connects (snd (execute_sql w q ps h)) = 1"
  unfolding execute_sql_def
  by (rule with_conn_connects) (rule quiet_execute_sql_try)

lemma quiet_count_into: "quiet (count_into w q p nm)"
  unfolding count_into_def by (intro quiet_more)

lemma quiet_count_dependencies: "quiet (count_dependencies w t cond)"
  unfolding count_dependencies_def by (intro quiet_more quiet_count_into)

lemma quiet_check_dependencies: "quiet (check_dependencies w t cond)"
  unfolding check_dependencies_def by (intro quiet_more quiet_count_dependencies)

lemma delete_data_connects: "connects (snd (delete_data w t cond h)) = 1"
  unfolding delete_data_def
  by (rule with_conn_connects) (intro quiet_more quiet_check_dependencies)

subsection \<open>restore_backup: the clean step\<close>

lemma andthen_run_ok:
  "fails w h (Run cmd) = None \<Longrightarrow>
   andthen (run w cmd) f h =
     (fst (f (run_result w h cmd) (h @ [(Run cmd, True)])),
      (Run cmd, True) # snd (f (run_result w h cmd) (h @ [(Run cmd, True)])))"
  by (simp add: andthen_def run_def split: prod.splits)

lemma andthen_run_fail:
  "fails w h (Run cmd) = Some e \<Longrightarrow> andthen (run w cmd) f h = (Inl e, [(Run cmd, False)])"
  by (simp add: andthen_def run_def)

lemma andthen_path_exists:
  "andthen (path_exists w p) f h =
     (fst (f (exists_path w h p) (h @ [(PathExists p, True)])),
      (PathExists p, True) # snd (f (exists_path w h p) (h @ [(PathExists p, True)])))"
  by (simp add: andthen_def path_exists_def split: prod.splits)

lemma psql_is_not_restore: "psql_cmd w \<noteq> restore_cmd w p"
  by (simp add: psql_cmd_def restore_cmd_def)

text \<open>
  C2. When the backup file exists and the clean step (\<open>psql\<close> dropping and recreating
  the schema \<open>public\<close>) ends with a nonzero return code, \<open>restore_backup\<close> runs no
  other command, so \<open>pg_restore\<close> is not invoked, and it returns the failure that
  carries the clean step's error text (its stripped standard error, else its stripped
  standard output, else the fixed text for an unknown error) and the \<open>psql\<close> command
  line.
\<close>

theorem restore_backup_clean_failure:
  "let h1 = h @ [(PathExists p, True)];
       r = run_result w h1 (psql_cmd w)
   in exists_path w h p \<and> fails w h1 (Run (psql_cmd w)) = None \<and> returncode r \<noteq> 0 \<longrightarrow>
      restore_backup w p h =
        (Inr (RestoreFailed
                (SchemaCleanFailed
                   (if strip (stderr r) \<noteq> [] then Text (strip (stderr r))
                    else if strip (stdout r) \<noteq> [] then Text (strip (stdout r))
                    else UnknownCleanError))
                (Some (join '' '' (psql_cmd w))) None),
         [(PathExists p, True), (Run (psql_cmd w), True)]) \<and>
      ran (snd (restore_backup w p h)) = [psql_cmd w] \<and>
      restore_cmd w p \<notin> set (ran (snd (restore_backup w p h)))"
proof -
  define h1 where "h1 = h @ [(PathExists p, True)]"
  have main: "restore_backup w p h =
        (Inr (RestoreFailed (SchemaCleanFailed (clean_error_text (run_result w h1 (psql_cmd w))))
                (Some (join '' '' (psql_cmd w))) None),
         [(PathExists p, True), (Run (psql_cmd w), True)])"
    if "exists_path w h p" "fails w h1 (Run (psql_cmd w)) = None"
       "returncode (run_result w h1 (psql_cmd w)) \<noteq> 0"
    unfolding restore_backup_def andthen_path_exists
    using that
    by (simp add: h1_def[symmetric] handle_def andthen_run_ok pure_def)
  show ?thesis
    unfolding Let_def h1_def[symmetric]
    using main psql_is_not_restore[of w p]
    by (auto simp: clean_error_text_def)
qed

text \<open>A \<open>psql\<close> that cannot reach the server.\<close>

theorem restore_backup_clean_failure_witness:
  "restore_backup (stub_world no_failure (count_cursor 0) failing_psql) ''b.backup'' [] =
     (Inr (RestoreFailed (SchemaCleanFailed (Text ''psql: error: connection refused''))
             (Some (join '' '' (psql_cmd (stub_world no_failure (count_cursor 0) failing_psql))))
             None),
      [(PathExists ''b.backup'', True),
       (Run (psql_cmd (stub_world no_failure (count_cursor 0) failing_psql)), True)])"
proof -
  let ?W = "stub_world no_failure (count_cursor 0) failing_psql"
  have s: "strip ''psql: error: connection refused'' = ''psql: error: connection refused''"
    by (simp add: strip_def is_space_def)
  have e: "exists_path ?W [] ''b.backup''"
    by (simp add: stub_world_def)
  have f: "fails ?W [(PathExists ''b.backup'', True)] (Run (psql_cmd ?W)) = None"
    by (simp add: stub_world_def no_failure_def)
  have r: "run_result ?W [(PathExists ''b.backup'', True)] (psql_cmd ?W) =
             \<lparr>returncode = 2, stdout = [], stderr = ''psql: error: connection refused''\<rparr>"
    by (simp add: stub_world_def failing_psql_def psql_cmd_def)
  show ?thesis
    using restore_backup_clean_failure[where h = "[]" and p = "''b.backup''" and w = ?W] e f
    by (simp add: Let_def r s)
qed

subsection \<open>restore_backup: the lines of pg_restore\<close>

lemma classify_filter:
  "classify ls =
     (filter (\<lambda>l. is_timeout_param l \<or> is_timeout_command l \<or> has_warning l) ls,
      filter (\<lambda>l. \<not> (is_timeout_param l \<or> is_timeout_command l \<or> has_warning l) \<and>
                    has_error l) ls)"
  by (induction ls) simp_all

lemma stderr_lines_nonempty: "l \<in> set (stderr_lines err) \<Longrightarrow> l \<noteq> []"
  by (simp add: stderr_lines_def)

lemma restore_backup_restored:
  assumes "exists_path w h p"
    and "fails w (h @ [(PathExists p, True)]) (Run (psql_cmd w)) = None"
    and "returncode (run_result w (h @ [(PathExists p, True)]) (psql_cmd w)) = 0"
    and "fails w (h @ [(PathExists p, True), (Run (psql_cmd w), True)]) (Run (restore_cmd w p)) = None"
  shows "restore_backup w p h =
     (fst (restore_outcome w p
             (run_result w (h @ [(PathExists p, True), (Run (psql_cmd w), True)]) (restore_cmd w p))
             (h @ [(PathExists p, True), (Run (psql_cmd w), True), (Run (restore_cmd w p), True)])),
      [(PathExists p, True), (Run (psql_cmd w), True), (Run (restore_cmd w p), True)])"
  unfolding restore_backup_def andthen_path_exists
  using assms
  by (simp add: handle_def andthen_run_ok pure_def restore_outcome_def split: prod.splits)

lemma timeout_line_facts:
  "has_error timeout_line" "is_timeout_param timeout_line"
  "stderr_lines timeout_line = [timeout_line]"
  by (simp_all add: has_error_def is_timeout_param_def timeout_line_def lower_def char_lower_def
        stderr_lines_def strip_def is_space_def)


text \<open>
  C1, as stated, fails: the tests of the loop are tried in order and the first that holds
  decides, so a line that contains \<open>error:\<close> and also mentions the unrecognized
  parameter \<open>transaction_timeout\<close> is a warning and not an error. With that line alone
  on the standard error and return code 1, no line is an error and the call reports
  success.
\<close>

theorem restore_backup_error_line_is_warning:
  "has_error timeout_line \<and>
   timeout_line \<in> set (stderr_lines timeout_line) \<and>
   snd (classify (stderr_lines timeout_line)) = [] \<and>
   fst (restore_backup (stub_world no_failure (count_cursor 0) (failing_restore timeout_line))
          ''b.backup'' []) =
     Inr (RestoreOk DatabaseRestored ''b.backup'' ''2024-01-01T00:00:00'' [timeout_line])"
proof -
  let ?W = "stub_world no_failure (count_cursor 0) (failing_restore timeout_line)"
  have e: "exists_path ?W [] ''b.backup''"
    by (simp add: stub_world_def)
  have f: "fails ?W h c = None" for h c
    by (simp add: stub_world_def no_failure_def)
  have r1: "returncode (run_result ?W h (psql_cmd ?W)) = 0" for h
    by (simp add: stub_world_def failing_restore_def psql_cmd_def)
  have r2: "run_result ?W h (restore_cmd ?W ''b.backup'') =
              \<lparr>returncode = 1, stdout = [], stderr = timeout_line\<rparr>" for h
    by (simp add: stub_world_def failing_restore_def restore_cmd_def)
  have n: "now_iso ?W h = ''2024-01-01T00:00:00''" for h
    by (simp add: stub_world_def)
  have c: "classify [timeout_line] = ([timeout_line], [])"
    by (simp add: timeout_line_facts)
  have "fst (restore_backup ?W ''b.backup'' []) =
          Inr (RestoreOk DatabaseRestored ''b.backup'' ''2024-01-01T00:00:00'' [timeout_line])"
    using restore_backup_restored[where w = ?W and h = "[]" and p = "''b.backup''"] e
    by (simp add: f r1 r2 n c restore_outcome_def timeout_line_facts)
  then show ?thesis
    by (simp add: timeout_line_facts c)
qed

text \<open>
  C1, amended. \<open>restore_backup\<close> classifies each non-empty stripped line of the
  standard error of \<open>pg_restore\<close>, case-insensitively: a line that mentions an
  unrecognized configuration parameter \<open>transaction_timeout\<close>, or starts with
  \<open>command was:\<close> and mentions \<open>transaction_timeout\<close>, or contains \<open>warning:\<close> is
  a warning; a line that contains \<open>error:\<close> and is not a warning by these tests is an
  error. When both commands ran and the clean step returned 0, the call reports failure
  (with the errors, the command line and the warnings) if and only if the return code of
  \<open>pg_restore\<close> is nonzero and at least one line is an error, and otherwise reports
  success with the warnings.
\<close>

theorem restore_backup_classification:
  "let h1 = h @ [(PathExists p, True)];
       h2 = h1 @ [(Run (psql_cmd w), True)];
       h3 = h2 @ [(Run (restore_cmd w p), True)];
       result = run_result w h2 (restore_cmd w p);
       ls = stderr_lines (stderr result);
       is_warn = (\<lambda>l. is_timeout_param l \<or> is_timeout_command l \<or> has_warning l);
       warnings = filter is_warn ls;
       errors = filter (\<lambda>l. \<not> is_warn l \<and> has_error l) ls
   in classify ls = (warnings, errors) \<and>
      (\<forall>l \<in> set ls. l \<noteq> []) \<and>
      (exists_path w h p \<and> fails w h1 (Run (psql_cmd w)) = None \<and>
       returncode (run_result w h1 (psql_cmd w)) = 0 \<and>
       fails w h2 (Run (restore_cmd w p)) = None \<longrightarrow>
         fst (restore_backup w p h) =
           Inr (if returncode result \<noteq> 0 \<and> errors \<noteq> []
                then RestoreFailed (Text (join [CHR 0x0A] errors))
                       (Some (join '' '' (restore_cmd w p))) (Some warnings)
                else RestoreOk DatabaseRestored p (now_iso w h3) warnings))"
proof -
  define h1 where "h1 = h @ [(PathExists p, True)]"
  define h2 where "h2 = h1 @ [(Run (psql_cmd w), True)]"
  define ls where "ls = stderr_lines (stderr (run_result w h2 (restore_cmd w p)))"
  have ne: "\<forall>l \<in> set ls. l \<noteq> []"
    unfolding ls_def using stderr_lines_nonempty by blast
  have res: "fst (restore_backup w p h) =
      fst (restore_outcome w p (run_result w h2 (restore_cmd w p))
             (h2 @ [(Run (restore_cmd w p), True)]))"
    if "exists_path w h p" "fails w h1 (Run (psql_cmd w)) = None"
       "returncode (run_result w h1 (psql_cmd w)) = 0"
       "fails w h2 (Run (restore_cmd w p)) = None"
    using restore_backup_restored[of w h p] that
    by (simp add: h1_def h2_def)
  show ?thesis
    unfolding Let_def h1_def[symmetric] h2_def[symmetric] ls_def[symmetric]
    using ne res
    by (auto simp: classify_filter restore_outcome_def ls_def[symmetric])
qed

text \<open>A standard error with a warning, an indented error, an empty line and the echo of
  the command that set \<open>transaction_timeout\<close>, with return code 1.\<close>

theorem restore_backup_classification_witness:
  "fst (restore_backup (stub_world no_failure (count_cursor 0) (failing_restore restore_stderr))
          ''b.backup'' []) =
     Inr (RestoreFailed (Text ''pg_restore: error: could not execute query'')
            (Some (join '' '' (restore_cmd
               (stub_world no_failure (count_cursor 0) (failing_restore restore_stderr))
               ''b.backup'')))
            (Some [''pg_restore: WARNING: no privileges'',
                   ''Command was: SET transaction_timeout = 0;'']))"
proof -
  let ?W = "stub_world no_failure (count_cursor 0) (failing_restore restore_stderr)"
  have e: "exists_path ?W [] ''b.backup''"
    by (simp add: stub_world_def)
  have f: "fails ?W h c = None" for h c
    by (simp add: stub_world_def no_failure_def)
  have r1: "returncode (run_result ?W h (psql_cmd ?W)) = 0" for h
    by (simp add: stub_world_def failing_restore_def psql_cmd_def)
  have r2: "run_result ?W h (restore_cmd ?W ''b.backup'') =
              \<lparr>returncode = 1, stdout = [], stderr = restore_stderr\<rparr>" for h
    by (simp add: stub_world_def failing_restore_def restore_cmd_def)
  have ls: "stderr_lines restore_stderr =
     [''pg_restore: WARNING: no privileges'',
      ''pg_restore: error: could not execute query'',
      ''Command was: SET transaction_timeout = 0;'']"
    by (simp add: stderr_lines_def restore_stderr_def strip_def is_space_def)
  have k1: "has_warning ''pg_restore: WARNING: no privileges''"
    by code_simp
  have k2: "\<not> is_timeout_param ''pg_restore: error: could not execute query''"
       "\<not> is_timeout_command ''pg_restore: error: could not execute query''"
       "\<not> has_warning ''pg_restore: error: could not execute query''"
       "has_error ''pg_restore: error: could not execute query''"
    by (simp_all add: is_timeout_param_def is_timeout_command_def has_warning_def has_error_def
          lower_def char_lower_def)
  have k3: "is_timeout_command ''Command was: SET transaction_timeout = 0;''"
    by code_simp
  show ?thesis
    using restore_backup_classification[where w = ?W and h = "[]" and p = "''b.backup''"] e
    by (simp add: Let_def f r1 r2 ls k1 k2 k3)
qed

subsection \<open>archive_tables\<close>

lemma fst_handle_pure:
  "fst (handle m (\<lambda>e. pure (g e)) h) = Inr (case fst (m h) of Inl e \<Rightarrow> g e | Inr x \<Rightarrow> x)"
  by (cases "m h") (auto simp: handle_def pure_def split: sum.splits)

lemma andthen_result:
  "fst (andthen m f h) = Inr y \<Longrightarrow> \<exists>x evs. m h = (Inr x, evs) \<and> fst (f x (h @ evs)) = Inr y"
  by (auto simp: andthen_def split: prod.splits sum.splits)

lemma archive_table_entry:
  "\<exists>entry. fst (archive_table w d t h) = Inr entry \<and> entry_name entry = t"
proof -
  define body where "body =
        andthen (with_conn w (read_sql w (''SELECT * FROM '' @ t))) (\<lambda>n.
        andthen (do_call w (ToExcel (path_join d (t @ ''.xlsx'')))) (\<lambda>_.
        andthen (do_call w (ToJson (path_join d (t @ ''.json'')))) (\<lambda>_.
        andthen (run_checked w
                   (dump_cmd w t (path_join d (t @ ''.backup'')))) (\<lambda>_.
        andthen (with_conn w
                   (andthen (execute_all w (purge_statements t)) (\<lambda>_.
                    do_call w Commit))) (\<lambda>_.
        pure (Archived t n
                (path_join d (t @ ''.xlsx''))
                (path_join d (t @ ''.json''))
                (path_join d (t @ ''.backup''))))))))"
  have at: "archive_table w d t = handle body (\<lambda>e. pure (ArchiveError t (str_exn w e)))"
    unfolding archive_table_def body_def ..
  have "entry_name y = t" if "fst (body h) = Inr y" for y
    using that unfolding body_def
    by (auto dest!: andthen_result simp: pure_def)
  then show ?thesis
    unfolding at fst_handle_pure
    by (cases "fst (body h)") auto
qed

lemma archive_loop_entries:
  "\<exists>entries evs. archive_loop w d ts h = (Inr entries, evs) \<and> map entry_name entries = ts"
proof (induction ts arbitrary: h)
  case Nil
  show ?case by (simp add: pure_def)
next
  case (Cons t ts)
  obtain entry where e: "fst (archive_table w d t h) = Inr entry" "entry_name entry = t"
    using archive_table_entry by blast
  obtain evs1 where a: "archive_table w d t h = (Inr entry, evs1)"
    using e(1) by (cases "archive_table w d t h") auto
  from Cons[of "h @ evs1"] obtain entries evs2 where
    l: "archive_loop w d ts (h @ evs1) = (Inr entries, evs2)" "map entry_name entries = ts"
    by blast
  show ?case
    using a l e(2) by (simp add: andthen_def pure_def)
qed


lemma andthen_Inr:
  "m h = (Inr x, evs) \<Longrightarrow> andthen m f h = (fst (f x (h @ evs)), evs @ snd (f x (h @ evs)))"
  by (simp add: andthen_def split: prod.splits)

lemma andthen_Inl: "m h = (Inl e, evs) \<Longrightarrow> andthen m f h = (Inl e, evs)"
  by (simp add: andthen_def)


















lemma archive_tables_entries:
  assumes "fst (archive_tables w tbls why h) = Inr r"
  shows "map entry_name (tables r) = tbls"
proof -
  from assms obtain evs1 entries evs2 where
    l: "archive_loop w (path_join (env_or w ''ARCHIVE_DIR'' ''archives'') (now_stamp w h)) tbls
          (h @ evs1) = (Inr entries, evs2)"
    and r: "tables r = entries"
    unfolding archive_tables_def
    by (auto dest!: andthen_result simp: pure_def)
  from archive_loop_entries[of w "path_join (env_or w ''ARCHIVE_DIR'' ''archives'') (now_stamp w h)"
        tbls "h @ evs1"] l r
  show ?thesis by simp
qed

subsection \<open>The SQL texts\<close>

lemma pk_query_text:
  "pk_query =
     ''SELECT column_name FROM information_schema.table_constraints tc JOIN information_schema.key_column_usage kcu ON tc.constraint_name = kcu.constraint_name WHERE tc.table_name = %s AND tc.constraint_type = '' @ [CHR 0x27] @ ''PRIMARY KEY'' @ [CHR 0x27]"
  by (simp add: pk_query_def sq_def)

lemma columns_query_text:
  "columns_query =
     ''SELECT column_name, data_type, is_nullable, column_default FROM information_schema.columns WHERE table_schema = '' @ [CHR 0x27] @ ''public'' @ [CHR 0x27] @ '' AND table_name = %s ORDER BY ordinal_position;''"
  by (simp add: columns_query_def sq_def)

lemma column_names_query_text:
  "column_names_query =
     ''SELECT column_name FROM information_schema.columns WHERE table_schema = '' @ [CHR 0x27] @ ''public'' @ [CHR 0x27] @ '' AND table_name = %s ORDER BY ordinal_position;''"
  by (simp add: column_names_query_def sq_def)

lemma count_query_text: "count_query t = ''SELECT COUNT(*) FROM '' @ t @ '';''"
  by (simp add: count_query_def)

lemma page_query_text:
  "page_query t (VStr c) = ''SELECT * FROM '' @ t @ '' ORDER BY '' @ c @ '' LIMIT %s OFFSET %s;''"
  by (simp add: page_query_def)

lemma executed_with_conn:
  assumes "fails w h (Connect (connect_args w)) = None"
  shows "executed (snd (with_conn w body h)) =
         executed (snd (body (h @ [(Connect (connect_args w), True)])))"
proof (cases "body (h @ [(Connect (connect_args w), True)])")
  case (Pair r evs)
  show ?thesis
  proof (cases r)
    case (Inl e)
    with Pair with_conn_raise[where body = body, OF assms] show ?thesis
      by (auto simp: executed_append split: option.splits)
  next
    case (Inr x)
    with Pair with_conn_ok[where body = body, OF assms] show ?thesis
      by (auto simp: executed_append split: option.splits)
  qed
qed

lemma get_primary_key_executed:
  assumes "fails w h (Connect (connect_args w)) = None"
  shows "executed (snd (get_primary_key w t h)) = [(pk_query, [VStr t])]"
  unfolding get_primary_key_def snd_handle_pure executed_with_conn[OF assms]
  by (auto simp: andthen_def execute_def fetchone_def pure_def throw_def
           split: option.splits list.splits prod.splits sum.splits)

text \<open>
  C4. For every table name, \<open>get_primary_key\<close> never raises. Once the connection is
  open, the one statement it sends is the SELECT that joins the catalog's
  \<open>table_constraints\<close> with \<open>key_column_usage\<close> for the constraints of type
  \<open>PRIMARY KEY\<close> of the table, with the table name as its parameter. When the
  connection, that query, the fetch and the end of the connection block all succeed
  (\<open>db_ok\<close>), it returns the first field of the first row the query gave, the column
  name the catalog records, and \<open>'id'\<close> when the query gave no row; when any of these
  database calls fails it returns \<open>'id'\<close>.
\<close>

theorem get_primary_key_spec:
  "let sql = ''SELECT column_name FROM information_schema.table_constraints tc JOIN information_schema.key_column_usage kcu ON tc.constraint_name = kcu.constraint_name WHERE tc.table_name = %s AND tc.constraint_type = '' @ [CHR 0x27] @ ''PRIMARY KEY'' @ [CHR 0x27];
       h1 = h @ [(Connect (connect_args w), True)];
       cur = cursor_of w h1 sql [VStr t];
       db_ok = (fails w h (Connect (connect_args w)) = None \<and>
                fails w h1 (Execute sql [VStr t]) = None \<and>
                description cur \<noteq> None \<and>
                fails w (h1 @ [(Execute sql [VStr t], True)]) (ConnExit True) = None)
   in (\<exists>v. fst (get_primary_key w t h) = Inr v) \<and>
      (fails w h (Connect (connect_args w)) = None \<longrightarrow>
         executed (snd (get_primary_key w t h)) = [(sql, [VStr t])]) \<and>
      (db_ok \<longrightarrow> (\<forall>x xs rest. rows cur = (x # xs) # rest \<longrightarrow>
                      fst (get_primary_key w t h) = Inr x)) \<and>
      (db_ok \<longrightarrow> rows cur = [] \<longrightarrow> fst (get_primary_key w t h) = Inr (VStr ''id'')) \<and>
      (\<not> db_ok \<longrightarrow> fst (get_primary_key w t h) = Inr (VStr ''id''))"
  unfolding pk_query_text[symmetric]
  using get_primary_key_cases[where w = w and h = h and t = t]
    get_primary_key_executed[where w = w and h = h and t = t]
  by (simp add: Let_def)

text \<open>The three cases at a table \<open>books\<close>: a primary key \<open>book_id\<close> in the catalog, no
  primary key, and a database that refuses the connection.\<close>

theorem get_primary_key_spec_witness:
  "fst (get_primary_key
          (stub_world no_failure (rows_cursor [''column_name''] [[VStr ''book_id'']]) quiet_proc)
          ''books'' []) = Inr (VStr ''book_id'') \<and>
   executed (snd (get_primary_key
          (stub_world no_failure (rows_cursor [''column_name''] [[VStr ''book_id'']]) quiet_proc)
          ''books'' [])) =
     [(''SELECT column_name FROM information_schema.table_constraints tc JOIN information_schema.key_column_usage kcu ON tc.constraint_name = kcu.constraint_name WHERE tc.table_name = %s AND tc.constraint_type = '' @ [CHR 0x27] @ ''PRIMARY KEY'' @ [CHR 0x27],
       [VStr ''books''])] \<and>
   fst (get_primary_key
          (stub_world no_failure (rows_cursor [''column_name''] []) quiet_proc)
          ''books'' []) = Inr (VStr ''id'') \<and>
   fst (get_primary_key
          (stub_world no_connection (rows_cursor [''column_name''] [[VStr ''book_id'']]) quiet_proc)
          ''books'' []) = Inr (VStr ''id'')"
  using get_primary_key_spec
          [where h = "[]" and t = "''books''"
             and w = "stub_world no_failure (rows_cursor [''column_name''] [[VStr ''book_id'']])
                        quiet_proc"]
        get_primary_key_spec
          [where h = "[]" and t = "''books''"
             and w = "stub_world no_failure (rows_cursor [''column_name''] []) quiet_proc"]
        get_primary_key_spec
          [where h = "[]" and t = "''books''"
             and w = "stub_world no_connection (rows_cursor [''column_name''] [[VStr ''book_id'']])
                        quiet_proc"]
  by (simp add: Let_def stub_world_def no_failure_def no_connection_def rows_cursor_def)

text \<open>
  C7. For every table name, when the connection, the query and the end of the connection
  block succeed, \<open>get_table_columns\<close> sends one statement, the SELECT of
  \<open>column_name\<close>, \<open>data_type\<close>, \<open>is_nullable\<close> and \<open>column_default\<close> from
  \<open>information_schema.columns\<close> for the schema \<open>public\<close> and the table, ordered by
  \<open>ordinal_position\<close>, and returns, for each row the catalog gave and in the same order,
  exactly the four fields name, type, nullable and default, where nullable is the
  comparison of the row's \<open>is_nullable\<close> with \<open>'YES'\<close>.
\<close>

theorem get_table_columns_spec:
  "let sql = ''SELECT column_name, data_type, is_nullable, column_default FROM information_schema.columns WHERE table_schema = '' @ [CHR 0x27] @ ''public'' @ [CHR 0x27] @ '' AND table_name = %s ORDER BY ordinal_position;'';
       h1 = h @ [(Connect (connect_args w), True)];
       cur = cursor_of w h1 sql [VStr t]
   in fails w h (Connect (connect_args w)) = None \<and>
      fails w h1 (Execute sql [VStr t]) = None \<and>
      description cur \<noteq> None \<and>
      (\<forall>col \<in> set (rows cur). 4 \<le> length col) \<and>
      fails w (h1 @ [(Execute sql [VStr t], True)]) (ConnExit True) = None
      \<longrightarrow>
      get_table_columns w t h =
        (Inr (map (\<lambda>col. \<lparr>col_name = col ! 0, col_type = col ! 1,
                            col_nullable = (col ! 2 = VStr ''YES''), col_default = col ! 3\<rparr>)
                (rows cur)),
         [(Connect (connect_args w), True), (Execute sql [VStr t], True),
          (ConnExit True, True)])"
  unfolding columns_query_text[symmetric]
  using get_table_columns_rows[where w = w and h = h and t = t]
  by (simp add: Let_def)

text \<open>A table with a column \<open>book_id\<close> that is not nullable and a column \<open>title\<close> that is.\<close>

theorem get_table_columns_spec_witness:
  "get_table_columns
     (stub_world no_failure
        (rows_cursor [''column_name'', ''data_type'', ''is_nullable'', ''column_default'']
           columns_rows) quiet_proc)
     ''books'' [] =
   (Inr [\<lparr>col_name = VStr ''book_id'', col_type = VStr ''integer'', col_nullable = False,
           col_default = VStr ''nextval()''\<rparr>,
         \<lparr>col_name = VStr ''title'', col_type = VStr ''text'', col_nullable = True,
           col_default = VNone\<rparr>],
    [(Connect (connect_args (stub_world no_failure
        (rows_cursor [''column_name'', ''data_type'', ''is_nullable'', ''column_default'']
           columns_rows) quiet_proc)), True),
     (Execute (''SELECT column_name, data_type, is_nullable, column_default FROM information_schema.columns WHERE table_schema = '' @ [CHR 0x27] @ ''public'' @ [CHR 0x27] @ '' AND table_name = %s ORDER BY ordinal_position;'')
        [VStr ''books''], True),
     (ConnExit True, True)])"
  using get_table_columns_spec
     [where h = "[]" and t = "''books''"
        and w = "stub_world no_failure
        (rows_cursor [''column_name'', ''data_type'', ''is_nullable'', ''column_default'']
           columns_rows) quiet_proc"]
  by (simp add: Let_def stub_world_def no_failure_def rows_cursor_def columns_rows_def)

text \<open>
  C5. For every table, when the connection is open, the count query gave a row and the
  query on the catalog's columns gave the column names \<open>names\<close> (in ordinal position),
  the sort column \<open>get_table_data\<close> infers is the first name ending in \<open>_id\<close> if there
  is one, otherwise the first name, and \<open>ctid\<close> when there are no names; and the next
  statement it sends selects the rows of the table with \<open>ORDER BY\<close> that column, with
  the page size and the offset as the parameters of \<open>LIMIT\<close> and \<open>OFFSET\<close>.
\<close>

theorem get_table_data_sort_column:
  "let count_sql = ''SELECT COUNT(*) FROM '' @ t @ '';'';
       names_sql = ''SELECT column_name FROM information_schema.columns WHERE table_schema = '' @ [CHR 0x27] @ ''public'' @ [CHR 0x27] @ '' AND table_name = %s ORDER BY ordinal_position;'';
       page_sql = ''SELECT * FROM '' @ t @ '' ORDER BY '' @ sort_choice names @ '' LIMIT %s OFFSET %s;'';
       h1 = h @ [(Connect (connect_args w), True)];
       h2 = h1 @ [(Execute count_sql [], True)];
       h3 = h2 @ [(Execute names_sql [VStr t], True)];
       cur = cursor_of w h1 count_sql [];
       cur2 = cursor_of w h2 names_sql [VStr t];
       page_call = Execute page_sql [VInt pg_size, VInt ((pg - 1) * pg_size)]
   in fails w h (Connect (connect_args w)) = None \<and>
      fails w h1 (Execute count_sql []) = None \<and>
      description cur \<noteq> None \<and> rows cur = (tc # tcs) # others \<and>
      fails w h2 (Execute names_sql [VStr t]) = None \<and>
      description cur2 \<noteq> None \<and> rows cur2 = map (\<lambda>c. [VStr c]) names
      \<longrightarrow>
      infer_sort_column (map VStr names) = Inr (VStr (sort_choice names)) \<and>
      (\<exists>rest. snd (get_table_data w t pg pg_size h) =
         [(Connect (connect_args w), True),
          (Execute count_sql [], True),
          (Execute names_sql [VStr t], True),
          (page_call, fails w h3 page_call = None)] @ rest)"
  unfolding column_names_query_text[symmetric]
  using get_table_data_page_query
    [where w = w and h = h and t = t and tc = tc and tcs = tcs and others = others
       and names = names and pg = pg and pg_size = pg_size]
  unfolding count_query_text page_query_text
  by (simp add: Let_def)

text \<open>A table \<open>books\<close> with the columns \<open>title\<close>, \<open>book_id\<close>, \<open>author_id\<close> is
  ordered by \<open>book_id\<close>.\<close>

theorem get_table_data_sort_column_witness:
  "\<exists>rest. snd (get_table_data (stub_world no_failure books_cursor quiet_proc) ''books'' 1 200 []) =
      [(Connect (connect_args (stub_world no_failure books_cursor quiet_proc)), True),
       (Execute ''SELECT COUNT(*) FROM books;'' [], True),
       (Execute (''SELECT column_name FROM information_schema.columns WHERE table_schema = '' @ [CHR 0x27] @ ''public'' @ [CHR 0x27] @ '' AND table_name = %s ORDER BY ordinal_position;'')
          [VStr ''books''], True),
       (Execute ''SELECT * FROM books ORDER BY book_id LIMIT %s OFFSET %s;''
          [VInt 200, VInt 0], True)] @ rest"
proof -
  have names: "sort_choice [''title'', ''book_id'', ''author_id''] = ''book_id''"
    by (simp add: sort_choice_def endswith_def)
  have differ: "''SELECT COUNT(*) FROM books;'' \<noteq> column_names_query"
    by (simp add: column_names_query_def)
  have same: "(''SELECT column_name FROM information_schema.columns WHERE table_schema = '' @ [CHR 0x27] @ ''public'' @ [CHR 0x27] @ '' AND table_name = %s ORDER BY ordinal_position;'') = column_names_query"
    by (simp add: column_names_query_text)
  show ?thesis
    using get_table_data_sort_column
      [where h = "[]" and w = "stub_world no_failure books_cursor quiet_proc"
         and t = "''books''" and tc = "VInt 2" and tcs = "[]" and others = "[]"
         and names = "[''title'', ''book_id'', ''author_id'']" and pg_size = 200 and pg = 1]
    unfolding Let_def same
    by (simp add: names differ stub_world_def no_failure_def books_cursor_def rows_cursor_def)
qed

text \<open>
  C10. Let \<open>pk\<close> be the primary-key column \<open>update_record\<close> read from the catalog
  (\<open>'id'\<close> when the catalog gave none). No part \<open>k = %s\<close> of the SET clause it builds
  has \<open>k = pk\<close>, and every part comes from a key of the data whose value is neither the
  empty string nor \<open>None\<close>. When the connection and the catalog query succeed, the
  statements it sends are the catalog query and, only if the SET clause is not empty, the
  one UPDATE of the table with that SET clause and \<open>pk = %s\<close> as its condition; with an
  empty SET clause it returns a failure and no UPDATE is sent.
\<close>

theorem update_record_spec:
  "let sql = ''SELECT column_name FROM information_schema.table_constraints tc JOIN information_schema.key_column_usage kcu ON tc.constraint_name = kcu.constraint_name WHERE tc.table_name = %s AND tc.constraint_type = '' @ [CHR 0x27] @ ''PRIMARY KEY'' @ [CHR 0x27];
       h1 = h @ [(Connect (connect_args w), True)];
       cur = cursor_of w h1 sql [VStr t];
       pk = pk_of_row (case rows cur of [] \<Rightarrow> None | r # rs \<Rightarrow> Some r);
       set_parts = fst (build_set pk dat);
       vals = snd (build_set pk dat)
   in (\<forall>k. k @ '' = %s'' \<in> set set_parts \<longrightarrow>
           VStr k \<noteq> pk \<and> (\<exists>v. (k, v) \<in> set dat \<and> v \<noteq> VStr [] \<and> v \<noteq> VNone)) \<and>
      (fails w h (Connect (connect_args w)) = None \<and>
       fails w h1 (Execute sql [VStr t]) = None \<and>
       description cur \<noteq> None \<longrightarrow>
         executed (snd (update_record w t rid dat h)) =
           (if set_parts = [] then [(sql, [VStr t])]
            else [(sql, [VStr t]),
                  (''UPDATE '' @ t @ '' SET '' @ join '', '' set_parts @
                   '' WHERE '' @ str_val pk @ '' = %s'', vals @ [rid])]) \<and>
         (set_parts = [] \<longrightarrow> (\<exists>m. fst (update_record w t rid dat h) = Inr (Failure m))))"
  unfolding pk_query_text[symmetric]
  using update_record_statements[where w = w and h = h and t = t and dat = dat and rid = rid]
  unfolding update_query_def
  by (simp add: Let_def)

text \<open>A form for the table \<open>books\<close> with primary key \<open>book_id\<close>: the key itself, an
  empty field and an absent one are left out of the UPDATE; a form with nothing else
  sends no UPDATE.\<close>

theorem update_record_spec_witness:
  "executed (snd (update_record
       (stub_world no_failure (rows_cursor [''column_name''] [[VStr ''book_id'']]) quiet_proc)
       ''books'' (VInt 7)
       [(''book_id'', VInt 5), (''title'', VStr ''Dune''), (''isbn'', VStr []), (''year'', VNone)]
       [])) =
     [(''SELECT column_name FROM information_schema.table_constraints tc JOIN information_schema.key_column_usage kcu ON tc.constraint_name = kcu.constraint_name WHERE tc.table_name = %s AND tc.constraint_type = '' @ [CHR 0x27] @ ''PRIMARY KEY'' @ [CHR 0x27],
       [VStr ''books'']),
      (''UPDATE books SET title = %s WHERE book_id = %s'', [VStr ''Dune'', VInt 7])] \<and>
   executed (snd (update_record
       (stub_world no_failure (rows_cursor [''column_name''] [[VStr ''book_id'']]) quiet_proc)
       ''books'' (VInt 7) [(''book_id'', VInt 5), (''isbn'', VStr [])] [])) =
     [(''SELECT column_name FROM information_schema.table_constraints tc JOIN information_schema.key_column_usage kcu ON tc.constraint_name = kcu.constraint_name WHERE tc.table_name = %s AND tc.constraint_type = '' @ [CHR 0x27] @ ''PRIMARY KEY'' @ [CHR 0x27],
       [VStr ''books''])] \<and>
   (\<exists>m. fst (update_record
       (stub_world no_failure (rows_cursor [''column_name''] [[VStr ''book_id'']]) quiet_proc)
       ''books'' (VInt 7) [(''book_id'', VInt 5), (''isbn'', VStr [])] []) = Inr (Failure m))"
  using update_record_spec
      [where h = "[]"
         and w = "stub_world no_failure (rows_cursor [''column_name''] [[VStr ''book_id'']]) quiet_proc"
         and t = "''books''" and rid = "VInt 7"
         and dat = "[(''book_id'', VInt 5), (''title'', VStr ''Dune''), (''isbn'', VStr []),
                     (''year'', VNone)]"]
    update_record_spec
      [where h = "[]"
         and w = "stub_world no_failure (rows_cursor [''column_name''] [[VStr ''book_id'']]) quiet_proc"
         and t = "''books''" and rid = "VInt 7"
         and dat = "[(''book_id'', VInt 5), (''isbn'', VStr [])]"]
  by (simp add: Let_def stub_world_def no_failure_def rows_cursor_def pk_of_row_def)

lemma row_loop_fold:
  "length row \<le> length names \<Longrightarrow>
   row_loop names row d =
     Inr (foldl (\<lambda>d (k, v). AList.update k v d) d (zip names (map iso_val row)))"
  by (induction names row d rule: row_loop.induct) simp_all

lemma row_to_dict_dict_of:
  "length row = length names \<Longrightarrow>
   row_to_dict names row = Inr (dict_of (zip names (map iso_val row)))"
  by (simp add: row_to_dict_def dict_of_def row_loop_fold)

lemma map_exn_rows:
  "\<forall>row \<in> set rs. length row = length names \<Longrightarrow>
   map_exn (row_to_dict names) rs =
     Inr (map (\<lambda>row. dict_of (zip names (map iso_val row))) rs)"
  by (induction rs) (simp_all add: row_to_dict_dict_of)

lemma execute_sql_try_result_set:
  assumes "fails w hc (Execute q ps) = None"
    and "description (cursor_of w hc q ps) = Some names" and "names \<noteq> []"
    and "\<forall>row \<in> set (rows (cursor_of w hc q ps)). length row = length names"
  shows "execute_sql_try w q ps hc =
     (Inr (SqlRows (map (\<lambda>row. dict_of (zip names (map iso_val row)))
                      (rows (cursor_of w hc q ps)))
             names (rowcount (cursor_of w hc q ps))
             (clock w (hc @ [(Execute q ps, True)]) - clock w hc)),
      [(Execute q ps, True)])"
proof -
  from assms(3) obtain d ds where nm: "names = d # ds" by (cases names) auto
  show ?thesis
    unfolding execute_sql_try_def handle_def
    using assms(1,2,4) unfolding nm
    by (simp add: andthen_execute_ok andthen_fetchall andthen_lift_Inr map_exn_rows)
qed

text \<open>
  C8, as stated, fails in two places. \<open>execute_sql\<close> opens its connection outside its
  \<open>try\<close> and \<open>Database.get_connection\<close> re-raises what connecting raises, so with a
  database that refuses the connection the call raises. And a statement that yields a
  result set is committed all the same: \<open>execute_sql\<close> returns from inside the
  connection block, and the block, left normally, commits. Below, an \<open>INSERT\<close> with
  \<open>RETURNING\<close> gives its row back and the events end in a commit point.
\<close>

theorem execute_sql_raises:
  "fst (execute_sql (stub_world no_connection (rows_cursor [''n''] [[VInt 1]]) quiet_proc)
          ''SELECT 1'' [] []) = Inl (OtherException ''connection refused'') \<and>
   execute_sql (stub_world no_failure
        (rows_cursor [''genre_id'', ''name''] [[VInt 7, VStr ''Poetry'']]) quiet_proc)
      ''INSERT INTO genres (name) VALUES (%s) RETURNING *'' [VStr ''Poetry''] [] =
     (Inr (SqlRows [[(''genre_id'', VInt 7), (''name'', VStr ''Poetry'')]]
             [''genre_id'', ''name''] 1 1),
      [(Connect (connect_args (stub_world no_failure
          (rows_cursor [''genre_id'', ''name''] [[VInt 7, VStr ''Poetry'']]) quiet_proc)), True),
       (Execute ''INSERT INTO genres (name) VALUES (%s) RETURNING *'' [VStr ''Poetry''], True),
       (ConnExit True, True)]) \<and>
   committed
     [(Connect (connect_args (stub_world no_failure
          (rows_cursor [''genre_id'', ''name''] [[VInt 7, VStr ''Poetry'']]) quiet_proc)), True),
      (Execute ''INSERT INTO genres (name) VALUES (%s) RETURNING *'' [VStr ''Poetry''], True),
      (ConnExit True, True)]"
proof -
  let ?W = "stub_world no_failure
        (rows_cursor [''genre_id'', ''name''] [[VInt 7, VStr ''Poetry'']]) quiet_proc"
  have f: "fails ?W h c = None" for h c
    by (simp add: stub_world_def no_failure_def)
  have c: "cursor_of ?W h q ps =
      \<lparr>description = Some [''genre_id'', ''name''], rows = [[VInt 7, VStr ''Poetry'']],
       rowcount = 1\<rparr>" for h q ps
    by (simp add: stub_world_def rows_cursor_def)
  have k: "clock ?W h = int (length h)" for h
    by (simp add: stub_world_def)
  have t: "execute_sql_try ?W ''INSERT INTO genres (name) VALUES (%s) RETURNING *''
             [VStr ''Poetry''] [(Connect (connect_args ?W), True)] =
     (Inr (SqlRows [[(''genre_id'', VInt 7), (''name'', VStr ''Poetry'')]]
             [''genre_id'', ''name''] 1 1),
      [(Execute ''INSERT INTO genres (name) VALUES (%s) RETURNING *'' [VStr ''Poetry''], True)])"
    using execute_sql_try_result_set
      [where w = ?W and hc = "[(Connect (connect_args ?W), True)]"
         and q = "''INSERT INTO genres (name) VALUES (%s) RETURNING *''"
         and ps = "[VStr ''Poetry'']" and names = "[''genre_id'', ''name'']"]
    by (simp add: f c k dict_of_def)
  have one: "fst (execute_sql (stub_world no_connection (rows_cursor [''n''] [[VInt 1]]) quiet_proc)
          ''SELECT 1'' [] []) = Inl (OtherException ''connection refused'')"
    by (simp add: execute_sql_def with_conn_no_connection stub_world_def no_connection_def)
  have two: "execute_sql ?W ''INSERT INTO genres (name) VALUES (%s) RETURNING *''
               [VStr ''Poetry''] [] =
     (Inr (SqlRows [[(''genre_id'', VInt 7), (''name'', VStr ''Poetry'')]]
             [''genre_id'', ''name''] 1 1),
      [(Connect (connect_args ?W), True),
       (Execute ''INSERT INTO genres (name) VALUES (%s) RETURNING *'' [VStr ''Poetry''], True),
       (ConnExit True, True)])"
    unfolding execute_sql_def
    using with_conn_ok
      [where w = ?W and h = "[]"
         and body = "execute_sql_try ?W ''INSERT INTO genres (name) VALUES (%s) RETURNING *''
                       [VStr ''Poetry'']"]
      t
    by (simp add: f)
  have three: "committed
     [(Connect (connect_args ?W), True),
      (Execute ''INSERT INTO genres (name) VALUES (%s) RETURNING *'' [VStr ''Poetry''], True),
      (ConnExit True, True)]"
    by (simp add: committed_def)
  from one two three show ?thesis by blast
qed

text \<open>
  C8, amended. \<open>execute_sql\<close> passes the query and its parameters to the database as
  they are. It raises what connecting raises; once the connection is open it raises only
  if the rollback or the end of the connection block raises. When the statement gives a
  result set (a description with at least one column, and one value per column in each
  row) it returns success with the rows as dicts keyed by the column names (\<open>datetime\<close>
  and \<open>date\<close> values as ISO texts), the column names, the row count and the execution
  time; it calls no commit itself, and the transaction is committed as the connection
  block ends. When the statement gives no result set it calls commit and returns success
  with the row count; when the statement raises it calls rollback and returns the failure
  with the error text.
\<close>

theorem execute_sql_spec:
  "let h1 = h @ [(Connect (connect_args w), True)];
       ex = Execute q ps;
       cur = cursor_of w h1 q ps
   in (\<forall>e. fails w h (Connect (connect_args w)) = Some e \<longrightarrow>
         execute_sql w q ps h = (Inl e, [(Connect (connect_args w), False)])) \<and>
      (fails w h (Connect (connect_args w)) = None \<longrightarrow>
      ((\<forall>h'. fails w h' Rollback = None) \<and> (\<forall>h' b. fails w h' (ConnExit b) = None) \<longrightarrow>
         (\<exists>r. fst (execute_sql w q ps h) = Inr r)) \<and>
      (fails w h1 ex = None \<and> description cur = Some names \<and> names \<noteq> [] \<and>
       (\<forall>row \<in> set (rows cur). length row = length names) \<and>
       fails w (h1 @ [(ex, True)]) (ConnExit True) = None \<longrightarrow>
         execute_sql w q ps h =
           (Inr (SqlRows (map (\<lambda>row. dict_of (zip names (map iso_val row))) (rows cur)) names
                   (rowcount cur) (clock w (h1 @ [(ex, True)]) - clock w h1)),
            [(Connect (connect_args w), True), (ex, True), (ConnExit True, True)]) \<and>
         committed (snd (execute_sql w q ps h))) \<and>
      (fails w h1 ex = None \<and> (description cur = None \<or> description cur = Some []) \<and>
       fails w (h1 @ [(ex, True)]) Commit = None \<and>
       fails w (h1 @ [(ex, True), (Commit, True)]) (ConnExit True) = None \<longrightarrow>
         execute_sql w q ps h =
           (Inr (SqlDone (QueryDone (rowcount cur)) (rowcount cur)
                   (clock w (h1 @ [(ex, True), (Commit, True)]) - clock w h1)),
            [(Connect (connect_args w), True), (ex, True), (Commit, True),
             (ConnExit True, True)])) \<and>
      (\<forall>e. fails w h1 ex = Some e \<and> fails w (h1 @ [(ex, False)]) Rollback = None \<and>
           fails w (h1 @ [(ex, False), (Rollback, True)]) (ConnExit True) = None \<longrightarrow>
         execute_sql w q ps h =
           (Inr (SqlFailed (str_exn w e)
                   (clock w (h1 @ [(ex, False), (Rollback, True)]) - clock w h1)),
            [(Connect (connect_args w), True), (ex, False), (Rollback, True),
             (ConnExit True, True)])))"
proof -
  define h1 where "h1 = h @ [(Connect (connect_args w), True)]"
  have refused: "execute_sql w q ps h = (Inl e, [(Connect (connect_args w), False)])"
    if "fails w h (Connect (connect_args w)) = Some e" for e
    unfolding execute_sql_def by (rule with_conn_no_connection[OF that])
  have returns: "\<exists>r. fst (execute_sql w q ps h) = Inr r"
    if c: "fails w h (Connect (connect_args w)) = None"
      and rb: "\<forall>h'. fails w h' Rollback = None"
      and ce: "\<forall>h' b. fails w h' (ConnExit b) = None"
  proof -
    from execute_sql_try_returns[OF rb] obtain r evs where
      b: "execute_sql_try w q ps (h @ [(Connect (connect_args w), True)]) = (Inr r, evs)"
      by blast
    show ?thesis
      unfolding execute_sql_def
      using with_conn_ok[where body = "execute_sql_try w q ps", OF c b] ce
      by simp
  qed
  have rows_case: "execute_sql w q ps h =
           (Inr (SqlRows (map (\<lambda>row. dict_of (zip names (map iso_val row)))
                            (rows (cursor_of w h1 q ps)))
                   names (rowcount (cursor_of w h1 q ps))
                   (clock w (h1 @ [(Execute q ps, True)]) - clock w h1)),
            [(Connect (connect_args w), True), (Execute q ps, True), (ConnExit True, True)])"
    if c: "fails w h (Connect (connect_args w)) = None"
      and e: "fails w h1 (Execute q ps) = None"
      and d: "description (cursor_of w h1 q ps) = Some names" "names \<noteq> []"
      and r: "\<forall>row \<in> set (rows (cursor_of w h1 q ps)). length row = length names"
      and x: "fails w (h1 @ [(Execute q ps, True)]) (ConnExit True) = None"
    unfolding execute_sql_def
    using with_conn_ok[where body = "execute_sql_try w q ps", OF c
            execute_sql_try_result_set[OF e d r, unfolded h1_def]] x
    by (simp add: h1_def)
  have rows_committed: "committed (snd (execute_sql w q ps h))"
    if c: "fails w h (Connect (connect_args w)) = None"
      and e: "fails w h1 (Execute q ps) = None"
      and d: "description (cursor_of w h1 q ps) = Some names" "names \<noteq> []"
      and r: "\<forall>row \<in> set (rows (cursor_of w h1 q ps)). length row = length names"
      and x: "fails w (h1 @ [(Execute q ps, True)]) (ConnExit True) = None"
    unfolding rows_case[OF that] by (simp add: committed_def)
  have done_case: "execute_sql w q ps h =
           (Inr (SqlDone (QueryDone (rowcount (cursor_of w h1 q ps)))
                   (rowcount (cursor_of w h1 q ps))
                   (clock w (h1 @ [(Execute q ps, True), (Commit, True)]) - clock w h1)),
            [(Connect (connect_args w), True), (Execute q ps, True), (Commit, True),
             (ConnExit True, True)])"
    if c: "fails w h (Connect (connect_args w)) = None"
      and e: "fails w h1 (Execute q ps) = None"
      and d: "description (cursor_of w h1 q ps) = None \<or>
              description (cursor_of w h1 q ps) = Some []"
      and cm: "fails w (h1 @ [(Execute q ps, True)]) Commit = None"
      and x: "fails w (h1 @ [(Execute q ps, True), (Commit, True)]) (ConnExit True) = None"
    unfolding execute_sql_def
    using with_conn_ok[where body = "execute_sql_try w q ps", OF c
            execute_sql_try_done[OF e d cm, unfolded h1_def]] x
    by (simp add: h1_def)
  have failed_case: "execute_sql w q ps h =
           (Inr (SqlFailed (str_exn w e)
                   (clock w (h1 @ [(Execute q ps, False), (Rollback, True)]) - clock w h1)),
            [(Connect (connect_args w), True), (Execute q ps, False), (Rollback, True),
             (ConnExit True, True)])"
    if c: "fails w h (Connect (connect_args w)) = None"
      and e: "fails w h1 (Execute q ps) = Some e"
      and rb: "fails w (h1 @ [(Execute q ps, False)]) Rollback = None"
      and x: "fails w (h1 @ [(Execute q ps, False), (Rollback, True)]) (ConnExit True) = None"
    for e
    unfolding execute_sql_def
    using with_conn_ok[where body = "execute_sql_try w q ps", OF c
            execute_sql_try_failed[OF e rb, unfolded h1_def]] x
    by (simp add: h1_def)
  show ?thesis
    unfolding Let_def h1_def[symmetric]
    using refused returns rows_case rows_committed done_case failed_case
    by blast
qed

text \<open>A SELECT with a date column and a repeated column name, a DELETE of three rows, a
  statement the database rejects, and a database that refuses the connection.\<close>

theorem execute_sql_spec_witness:
  "execute_sql (stub_world no_failure
        (rows_cursor [''title'', ''added'', ''title'']
           [[VStr ''Dune'', VDate ''2024-05-01'', VStr ''Arrakis'']]) quiet_proc)
      ''SELECT b.title, added, p.title FROM books b JOIN places p ON b.place_id = p.place_id''
      [] [] =
     (Inr (SqlRows [[(''title'', VStr ''Arrakis''), (''added'', VStr ''2024-05-01'')]]
             [''title'', ''added'', ''title''] 1 1),
      [(Connect (connect_args (stub_world no_failure
          (rows_cursor [''title'', ''added'', ''title'']
             [[VStr ''Dune'', VDate ''2024-05-01'', VStr ''Arrakis'']]) quiet_proc)),
        True),
       (Execute ''SELECT b.title, added, p.title FROM books b JOIN places p ON b.place_id = p.place_id''
          [], True),
       (ConnExit True, True)]) \<and>
   fst (execute_sql (stub_world no_failure (count_cursor 3) quiet_proc)
      ''DELETE FROM book_genres'' [] []) = Inr (SqlDone (QueryDone 3) 3 2) \<and>
   fst (execute_sql (stub_world no_execute (count_cursor 3) quiet_proc)
      ''DELETE FROM'' [] []) = Inr (SqlFailed ''syntax error'' 2) \<and>
   fst (execute_sql (stub_world no_connection (count_cursor 3) quiet_proc)
      ''SELECT 1'' [] []) = Inl (OtherException ''connection refused'')"
  using execute_sql_spec
      [where h = "[]"
         and q = "''SELECT b.title, added, p.title FROM books b JOIN places p ON b.place_id = p.place_id''"
         and ps = "[]" and names = "[''title'', ''added'', ''title'']"
         and w = "stub_world no_failure
        (rows_cursor [''title'', ''added'', ''title'']
           [[VStr ''Dune'', VDate ''2024-05-01'', VStr ''Arrakis'']]) quiet_proc"]
    execute_sql_spec
      [where h = "[]" and q = "''DELETE FROM book_genres''" and ps = "[]"
         and w = "stub_world no_failure (count_cursor 3) quiet_proc"]
    execute_sql_spec
      [where h = "[]" and q = "''DELETE FROM''" and ps = "[]"
         and w = "stub_world no_execute (count_cursor 3) quiet_proc"]
    execute_sql_spec
      [where h = "[]" and q = "''SELECT 1''" and ps = "[]"
         and w = "stub_world no_connection (count_cursor 3) quiet_proc"]
  by (simp add: Let_def stub_world_def no_failure_def no_execute_def no_connection_def
        rows_cursor_def count_cursor_def dict_of_def)

subsection \<open>Connections of the other operations\<close>

lemma opens_at_most_quiet: "quiet m \<Longrightarrow> opens_at_most n m"
  by (simp add: opens_at_most_def quiet_counts)

lemma opens_at_most_andthen:
  assumes "opens_at_most a m" and "\<And>x. opens_at_most b (f x)"
  shows "opens_at_most (a + b) (andthen m f)"
proof -
  have "connects (snd (andthen m f h)) \<le> a + b" for h
  proof (cases "m h")
    case (Pair r evs)
    from assms(1) Pair have m: "connects evs \<le> a"
      unfolding opens_at_most_def by (metis snd_conv)
    show ?thesis
    proof (cases r)
      case (Inl e)
      with Pair m show ?thesis by (simp add: andthen_def)
    next
      case (Inr x)
      from assms(2)[of x] have "connects (snd (f x (h @ evs))) \<le> b"
        unfolding opens_at_most_def by blast
      with Pair Inr m show ?thesis
        by (cases "f x (h @ evs)") (simp add: andthen_def connects_append)
    qed
  qed
  then show ?thesis unfolding opens_at_most_def by blast
qed

lemma opens_at_most_after_quiet:
  "quiet m \<Longrightarrow> (\<And>x. opens_at_most n (f x)) \<Longrightarrow> opens_at_most n (andthen m f)"
  using opens_at_most_andthen[where a = 0 and b = n and m = m and f = f]
  by (simp add: opens_at_most_quiet)

lemma opens_at_most_before_quiet:
  "opens_at_most n m \<Longrightarrow> (\<And>x. quiet (f x)) \<Longrightarrow> opens_at_most n (andthen m f)"
  using opens_at_most_andthen[where a = n and b = 0 and m = m and f = f]
  by (simp add: opens_at_most_quiet)

lemma opens_at_most_case_prod:
  "(\<And>a b. opens_at_most n (f a b)) \<Longrightarrow> opens_at_most n (case p of (a, b) \<Rightarrow> f a b)"
  by (cases p) simp

lemma opens_at_most_case_option:
  "opens_at_most n a \<Longrightarrow> (\<And>x. opens_at_most n (f x)) \<Longrightarrow>
   opens_at_most n (case v of None \<Rightarrow> a | Some x \<Rightarrow> f x)"
  by (cases v) simp_all

lemma opens_at_most_case_list:
  "opens_at_most n a \<Longrightarrow> (\<And>x xs. opens_at_most n (f x xs)) \<Longrightarrow>
   opens_at_most n (case v of [] \<Rightarrow> a | x # xs \<Rightarrow> f x xs)"
  by (cases v) simp_all

lemma with_conn_connects_bounds:
  assumes "opens_at_most n body"
  shows "1 \<le> connects (snd (with_conn w body h)) \<and>
         connects (snd (with_conn w body h)) \<le> Suc n"
proof (cases "fails w h (Connect (connect_args w))")
  case (Some e)
  then show ?thesis
    by (simp add: with_conn_no_connection connects_def)
next
  case None
  obtain r evs where b: "body (h @ [(Connect (connect_args w), True)]) = (r, evs)"
    by (cases "body (h @ [(Connect (connect_args w), True)])") auto
  from assms b have q: "connects evs \<le> n"
    unfolding opens_at_most_def by (metis snd_conv)
  show ?thesis
  proof (cases r)
    case (Inr x)
    with b with_conn_ok[where body = body, OF None] q show ?thesis
      by (auto simp: connects_def split: option.splits)
  next
    case (Inl e)
    with b with_conn_raise[where body = body, OF None] q show ?thesis
      by (auto simp: connects_def split: option.splits)
  qed
qed

lemma opens_at_most_with_conn: "quiet body \<Longrightarrow> opens_at_most 1 (with_conn w body)"
  by (simp add: opens_at_most_def with_conn_connects)

lemma quiet_other_call:
  "\<not> is_connect_call (c, True) \<Longrightarrow> \<not> is_close_call (c, True) \<Longrightarrow> quiet (do_call w c)"
  by (cases c) (simp_all add: quiet_def do_call_def split: option.splits)

lemma quiet_run: "quiet (run w cmd)"
  by (simp add: quiet_def run_def split: option.splits)

lemma quiet_run_checked: "quiet (run_checked w cmd)"
  by (simp add: quiet_def run_checked_def split: option.splits)

lemma quiet_run_capture_checked: "quiet (run_capture_checked w cmd)"
  by (simp add: quiet_def run_capture_checked_def split: option.splits)

lemma quiet_get_size: "quiet (get_size w p)"
  by (simp add: quiet_def get_size_def split: option.splits)

lemma quiet_read_sql: "quiet (read_sql w q)"
  by (simp add: quiet_def read_sql_def split: option.splits)

lemma quiet_path_exists: "quiet (path_exists w p)"
  by (simp add: quiet_def path_exists_def)

lemma quiet_execute_all: "quiet (execute_all w qs)"
  by (induction qs) (auto intro: quiet_more)

lemma quiet_restore_outcome: "quiet (restore_outcome w p r)"
  by (simp add: quiet_def restore_outcome_def split: prod.splits)

lemma insert_data_connects: "connects (snd (insert_data w t dat h)) = 1"
  unfolding insert_data_def
  by (rule with_conn_connects) (intro quiet_more)

lemma update_data_connects: "connects (snd (update_data w t dat cond h)) = 1"
  unfolding update_data_def
  by (rule with_conn_connects) (intro quiet_more)

lemma get_record_by_id_connects:
  "1 \<le> connects (snd (get_record_by_id w t rid h)) \<and>
   connects (snd (get_record_by_id w t rid h)) \<le> 2"
proof -
  have c: "opens_at_most 1 (get_table_columns w t)"
    by (simp add: opens_at_most_def get_table_columns_connects)
  have "opens_at_most 1
          (andthen (execute w pk_query [VStr t]) (\<lambda>cur.
           andthen (fetchone cur) (\<lambda>(pk_result, cur').
           andthen (execute w (select_by_pk t (pk_of_row pk_result)) [rid]) (\<lambda>cur2.
           andthen (fetchone cur2) (\<lambda>(record, cur2').
             (case record of
                Some (x # xs) \<Rightarrow>
                  andthen (get_table_columns w t) (\<lambda>columns.
                  pure (RecFound (dict_of (zip (map col_name columns) (x # xs)))))
              | _ \<Rightarrow> pure RecNone))))))"
    by (intro opens_at_most_after_quiet opens_at_most_case_prod opens_at_most_case_option
          opens_at_most_case_list opens_at_most_before_quiet[OF c] opens_at_most_quiet
          quiet_more)
  from with_conn_connects_bounds[OF this, of w h] show ?thesis
    unfolding get_record_by_id_def snd_handle_pure by simp
qed

lemma archive_table_connects:
  "1 \<le> connects (snd (archive_table w d t h)) \<and> connects (snd (archive_table w d t h)) \<le> 2"
proof -
  let ?rest = "\<lambda>n.
        andthen (do_call w (ToExcel (path_join d (t @ ''.xlsx'')))) (\<lambda>_.
        andthen (do_call w (ToJson (path_join d (t @ ''.json'')))) (\<lambda>_.
        andthen (run_checked w (dump_cmd w t (path_join d (t @ ''.backup'')))) (\<lambda>_.
        andthen (with_conn w
                   (andthen (execute_all w (purge_statements t)) (\<lambda>_.
                    do_call w Commit))) (\<lambda>_.
        pure (Archived t n
                (path_join d (t @ ''.xlsx''))
                (path_join d (t @ ''.json''))
                (path_join d (t @ ''.backup'')))))))"
  let ?first = "with_conn w (read_sql w (''SELECT * FROM '' @ t))"
  have first: "connects (snd (?first h)) = 1"
    by (rule with_conn_connects) (rule quiet_read_sql)
  have purge: "opens_at_most 1
      (with_conn w (andthen (execute_all w (purge_statements t)) (\<lambda>_. do_call w Commit)))"
    by (rule opens_at_most_with_conn) (intro quiet_more quiet_execute_all)
  have rest: "opens_at_most 1 (?rest n)" for n
    by (intro opens_at_most_after_quiet opens_at_most_before_quiet[OF purge]
          quiet_other_call quiet_run_checked quiet_more) simp_all
  have evs: "snd (archive_table w d t h) = snd (andthen ?first ?rest h)"
    unfolding archive_table_def snd_handle_pure ..
  show ?thesis
  proof (cases "?first h")
    case (Pair r es)
    with first have one: "connects es = 1" by simp
    show ?thesis
    proof (cases r)
      case (Inl e)
      with Pair have "?first h = (Inl e, es)" by simp
      from andthen_Inl[where m = ?first and f = ?rest, OF this] one show ?thesis
        unfolding evs by simp
    next
      case (Inr n)
      from rest[of n] have le: "connects (snd (?rest n (h @ es))) \<le> 1"
        unfolding opens_at_most_def by blast
      from Pair Inr have "?first h = (Inr n, es)" by simp
      from andthen_Inr[where m = ?first and f = ?rest, OF this] one le show ?thesis
        unfolding evs by (simp add: connects_append)
    qed
  qed
qed

lemma archive_loop_opens: "opens_at_most (2 * length ts) (archive_loop w d ts)"
proof (induction ts)
  case Nil
  show ?case by (simp add: opens_at_most_quiet quiet_pure)
next
  case (Cons t ts)
  have a: "opens_at_most 2 (archive_table w d t)"
    by (simp add: opens_at_most_def archive_table_connects)
  have b: "opens_at_most (2 * length ts)
             (andthen (archive_loop w d ts) (\<lambda>entries. pure (entry # entries)))" for entry
    by (rule opens_at_most_before_quiet[OF Cons]) (rule quiet_pure)
  from opens_at_most_andthen[OF a b] show ?case by simp
qed

lemma archive_tables_connects: "connects (snd (archive_tables w ts why h)) \<le> 2 * length ts"
proof -
  have "opens_at_most (2 * length ts)
     (andthen (do_call w (Makedirs (path_join (env_or w ''ARCHIVE_DIR'' ''archives'')
                                      (now_stamp w h)))) (\<lambda>_.
      andthen (archive_loop w (path_join (env_or w ''ARCHIVE_DIR'' ''archives'') (now_stamp w h))
                 ts) (\<lambda>entries.
      andthen (do_call w (WriteReport
                 (path_join (path_join (env_or w ''ARCHIVE_DIR'' ''archives'') (now_stamp w h))
                    ''archive_report.json''))) (\<lambda>_.
      pure (g entries)))))" for g :: "archive_entry list \<Rightarrow> archive_report"
    by (intro opens_at_most_after_quiet opens_at_most_before_quiet[OF archive_loop_opens]
          quiet_other_call quiet_more) simp_all
  then show ?thesis
    unfolding archive_tables_def opens_at_most_def by simp
qed

lemma create_backup_connects: "connects (snd (create_backup w nm ts h)) = 0"
proof -
  let ?p = "\<lambda>h. path_join (env_or w ''BACKUP_DIR'' ''backups'') (backup_file_name w nm h)"
  let ?inner = "\<lambda>h0.
       handle
         (andthen (run_capture_checked w (backup_cmd w (?p h0) ts)) (\<lambda>result.
          andthen (get_size w (?p h0)) (\<lambda>size. \<lambda>h'.
          (Inr (BackupDone (?p h0) size (if ts = [] then None else Some ts) (now_iso w h')),
           []))))
         (\<lambda>e. pure (backup_handler w (backup_cmd w (?p h0) ts) e))"
  have inner: "quiet (?inner h0)" for h0
    by (intro quiet_more quiet_run_capture_checked quiet_get_size)
  have "quiet (\<lambda>h. ?inner h h)"
    using inner unfolding quiet_def by blast
  then have "quiet (create_backup w nm ts)"
    unfolding create_backup_def
    by (intro quiet_andthen quiet_other_call) simp_all
  then show ?thesis by (simp add: quiet_counts)
qed

lemma restore_backup_connects: "connects (snd (restore_backup w p h)) = 0"
proof -
  have "quiet (restore_backup w p)"
    unfolding restore_backup_def
    by (intro quiet_more quiet_path_exists quiet_run quiet_restore_outcome)
  then show ?thesis by (simp add: quiet_counts)
qed

text \<open>
  C6, as stated, fails: \<open>get_record_by_id\<close> opens a connection of its own and, when it
  has found the record, calls \<open>get_table_columns\<close>, which opens another. Below, one
  invocation connects twice.
\<close>

theorem get_record_by_id_two_connections:
  "snd (get_record_by_id (stub_world no_failure record_cursor quiet_proc) ''books'' (VInt 1) []) =
     [(Connect (connect_args (stub_world no_failure record_cursor quiet_proc)), True),
      (Execute pk_query [VStr ''books''], True),
      (Execute (select_by_pk ''books'' (VStr ''book_id'')) [VInt 1], True),
      (Connect (connect_args (stub_world no_failure record_cursor quiet_proc)), True),
      (Execute columns_query [VStr ''books''], True),
      (ConnExit True, True),
      (ConnExit True, True)] \<and>
   connects (snd (get_record_by_id (stub_world no_failure record_cursor quiet_proc)
                    ''books'' (VInt 1) [])) = 2"
proof -
  have f: "fails (stub_world no_failure record_cursor quiet_proc) = (\<lambda>h c. None)"
    by (simp add: stub_world_def no_failure_def)
  have c: "cursor_of (stub_world no_failure record_cursor quiet_proc) =
      (\<lambda>h q ps. \<lparr>description = Some [''c1'', ''c2'', ''c3'', ''c4''],
                  rows = [[VStr ''book_id'', VStr ''integer'', VStr ''NO'', VNone]],
                  rowcount = 1\<rparr>)"
    by (simp add: stub_world_def record_cursor_def rows_cursor_def)
  have evs: "snd (get_record_by_id (stub_world no_failure record_cursor quiet_proc)
                    ''books'' (VInt 1) []) =
     [(Connect (connect_args (stub_world no_failure record_cursor quiet_proc)), True),
      (Execute pk_query [VStr ''books''], True),
      (Execute (select_by_pk ''books'' (VStr ''book_id'')) [VInt 1], True),
      (Connect (connect_args (stub_world no_failure record_cursor quiet_proc)), True),
      (Execute columns_query [VStr ''books''], True),
      (ConnExit True, True),
      (ConnExit True, True)]"
    unfolding get_record_by_id_def get_table_columns_def act_defs
    by (simp add: f c pk_of_row_def column_dict_def)
  show ?thesis
    unfolding evs by (simp add: connects_def)
qed

text \<open>
  C6, amended. Every operation is synchronous: it is an ordinary method whose calls to
  the database and to the external commands all happen, one after the other, between
  its invocation and its return. Each of \<open>get_tables\<close>, \<open>get_table_columns\<close>,
  \<open>get_primary_key\<close>, \<open>update_record\<close>, \<open>delete_record\<close>, \<open>get_table_data\<close>,
  \<open>execute_sql\<close>, \<open>insert_data\<close>, \<open>update_data\<close> and \<open>delete_data\<close> makes exactly one
  connection attempt per invocation. \<open>get_record_by_id\<close> makes one or two,
  \<open>archive_tables\<close> one or two for each table it processes, and \<open>create_backup\<close> and
  \<open>restore_backup\<close> make none. The operations that take their connection from
  \<open>Database.get_connection_context\<close>, which are \<open>get_tables\<close>, \<open>update_record\<close>,
  \<open>delete_record\<close> and \<open>get_table_data\<close>, close it exactly once when it was opened, as
  their last call, before they return or raise, and have nothing to close when it was
  not.
\<close>

theorem operations_connection:
  "connects (snd (get_tables w h)) = 1 \<and>
   connects (snd (get_table_columns w t h)) = 1 \<and>
   connects (snd (get_primary_key w t h)) = 1 \<and>
   connects (snd (update_record w t rid dat h)) = 1 \<and>
   connects (snd (delete_record w t rid h)) = 1 \<and>
   connects (snd (get_table_data w t pg pg_size h)) = 1 \<and>
   connects (snd (execute_sql w q ps h)) = 1 \<and>
   connects (snd (insert_data w t dat h)) = 1 \<and>
   connects (snd (update_data w t dat cond h)) = 1 \<and>
   connects (snd (delete_data w t cond h)) = 1 \<and>
   connects (snd (get_record_by_id w t rid h)) \<in> {1, 2} \<and>
   connects (snd (archive_table w d t h)) \<in> {1, 2} \<and>
   connects (snd (archive_tables w ts why h)) \<le> 2 * length ts \<and>
   connects (snd (create_backup w nm ts h)) = 0 \<and>
   connects (snd (restore_backup w p h)) = 0 \<and>
   (\<forall>evs \<in> {snd (get_tables w h), snd (update_record w t rid dat h),
             snd (delete_record w t rid h), snd (get_table_data w t pg pg_size h)}.
      if fails w h (Connect (connect_args w)) = None
      then closes evs = 1 \<and> fst (last evs) = Close
      else closes evs = 0)"
proof -
  have r: "connects (snd (get_record_by_id w t rid h)) \<in> {1, 2}"
    using get_record_by_id_connects[of w t rid h] by auto
  have a: "connects (snd (archive_table w d t h)) \<in> {1, 2}"
    using archive_table_connects[of w d t h] by auto
  show ?thesis
    using get_tables_connection[of w h] update_record_connection[of w t rid dat h]
      delete_record_connection[of w t rid h] get_table_data_connection[of w t pg pg_size h]
      get_table_columns_connects[of w t h] get_primary_key_connects[of w t h]
      execute_sql_connects[of w q ps h] delete_data_connects[of w t cond h]
      insert_data_connects[of w t dat h] update_data_connects[of w t dat cond h]
      archive_tables_connects[of w ts why h] create_backup_connects[of w nm ts h]
      restore_backup_connects[of w p h] r a
    by simp
qed

text \<open>A page of the table \<open>books\<close>, a list of tables asked of a database that refuses
  the connection, an inserted row, and the archive of two tables.\<close>

theorem operations_connection_witness:
  "connects (snd (get_table_data (stub_world no_failure books_cursor quiet_proc) ''books'' 1 200 []))
     = 1 \<and>
   closes (snd (get_table_data (stub_world no_failure books_cursor quiet_proc) ''books'' 1 200 []))
     = 1 \<and>
   fst (last (snd (get_table_data (stub_world no_failure books_cursor quiet_proc)
                     ''books'' 1 200 []))) = Close \<and>
   connects (snd (get_tables (stub_world no_connection books_cursor quiet_proc) [])) = 1 \<and>
   closes (snd (get_tables (stub_world no_connection books_cursor quiet_proc) [])) = 0 \<and>
   connects (snd (insert_data (stub_world no_failure books_cursor quiet_proc)
                    ''genres'' [(''name'', VStr ''Poetry'')] [])) = 1 \<and>
   connects (snd (archive_tables (stub_world no_failure books_cursor quiet_proc)
                    [''genres'', ''publishers''] ''cleanup'' [])) \<le> 4"
  using operations_connection
      [where w = "stub_world no_failure books_cursor quiet_proc" and h = "[]"
         and t = "''books''" and pg = 1 and pg_size = 200]
    operations_connection
      [where w = "stub_world no_connection books_cursor quiet_proc" and h = "[]"]
    operations_connection
      [where w = "stub_world no_failure books_cursor quiet_proc" and h = "[]"
         and t = "''genres''" and dat = "[(''name'', VStr ''Poetry'')]"
         and ts = "[''genres'', ''publishers'']" and why = "''cleanup''"]
  by (simp add: stub_world_def no_failure_def no_connection_def)

subsection \<open>archive_tables: the purge and the loop\<close>

















end
